theory Spec2Isabelle
  imports Main
begin

section \<open>Strings as the Go code uses them\<close>

text \<open>
  A Go string is a sequence of bytes: \<open>string\<close>. The functions of package
  \<open>strings\<close> that the sources call are written out.
\<close>

definition HasPrefix :: "string \<Rightarrow> string \<Rightarrow> bool" where
  "HasPrefix s pre = (length pre \<le> length s \<and> take (length pre) s = pre)"

definition HasSuffix :: "string \<Rightarrow> string \<Rightarrow> bool" where
  "HasSuffix s suf = (length suf \<le> length s \<and> drop (length s - length suf) s = suf)"

definition TrimPrefix :: "string \<Rightarrow> string \<Rightarrow> string" where
  "TrimPrefix s pre = (if HasPrefix s pre then drop (length pre) s else s)"

definition TrimSuffix :: "string \<Rightarrow> string \<Rightarrow> string" where
  "TrimSuffix s suf = (if HasSuffix s suf then take (length s - length suf) s else s)"

fun Contains :: "string \<Rightarrow> string \<Rightarrow> bool" where
  "Contains [] sub = (sub = [])"
| "Contains (c # cs) sub = (HasPrefix (c # cs) sub \<or> Contains cs sub)"

text \<open>\<open>strings.Split(s, sep)\<close> for a separator of one byte: never the empty list.\<close>

fun Split :: "string \<Rightarrow> char \<Rightarrow> string list" where
  "Split [] sep = [[]]"
| "Split (c # cs) sep =
     (if c = sep then [] # Split cs sep
      else (case Split cs sep of [] \<Rightarrow> [[c]] | w # ws \<Rightarrow> (c # w) # ws))"

fun Join :: "string list \<Rightarrow> string \<Rightarrow> string" where
  "Join [] sep = []"
| "Join [x] sep = x"
| "Join (x # y # ys) sep = x @ sep @ Join (y # ys) sep"

definition upper_byte :: "char \<Rightarrow> char" where
  "upper_byte c =
     (let n = (of_char c :: nat) in if 97 \<le> n \<and> n \<le> 122 then char_of (n - 32) else c)"

definition ToUpper :: "string \<Rightarrow> string" where
  "ToUpper s = map upper_byte s"

text \<open>
  \<open>strings.NewReplacer(old1, new1, old2, new2).Replace(s)\<close>: at each position the first
  pair, in argument order, whose old string starts there is replaced, and matching goes
  on after it. The counter is the number of bytes of a matched old string still to skip.
  The old strings of the sources are not empty; an empty one is passed over.
\<close>

fun replace_from :: "(string \<times> string) list \<Rightarrow> nat \<Rightarrow> string \<Rightarrow> string" where
  "replace_from ps k [] = []"
| "replace_from ps (Suc k) (c # cs) = replace_from ps k cs"
| "replace_from ps 0 (c # cs) =
     (case find (\<lambda>(old, new). old \<noteq> [] \<and> HasPrefix (c # cs) old) ps of
        Some (old, new) \<Rightarrow> new @ replace_from ps (length old - 1) cs
      | None \<Rightarrow> c # replace_from ps 0 cs)"

definition Replace :: "(string \<times> string) list \<Rightarrow> string \<Rightarrow> string" where
  "Replace ps s = replace_from ps 0 s"

section \<open>Errors\<close>

text \<open>
  One constructor for each error the sources build themselves, \<open>External\<close> for an
  error value handed back by a library, the operating system or the network, and
  \<open>UnsupportedError\<close> for the validator's \<open>*UnsupportedError\<close>. \<open>Wrapped\<close> is an error
  wrapping another one, which \<open>errors.As\<close> looks through.
\<close>

datatype error =
    HttpsWildcard string
  | InvalidPath string
  | MultiplePathsFound
  | PathNotFound
  | UnsupportedScheme string
  | InvalidUrl string
  | RequiresMediaType string
  | RequiresBody string
  | UnsupportedMediaType string
  | InvalidBody
  | CouldNotSetCacert
  | CouldNotSetCertificates
  | InvalidHTTPRunner string
  | UnsupportedError string
  | External string
  | Wrapped string error

fun As_UnsupportedError :: "error \<Rightarrow> bool" where
  "As_UnsupportedError (UnsupportedError m) = True"
| "As_UnsupportedError (Wrapped m e) = As_UnsupportedError e"
| "As_UnsupportedError e = False"

section \<open>Data of net/url and net/http\<close>

text \<open>
  The fields of \<open>url.URL\<close>, \<open>http.Request\<close>, \<open>http.Response\<close> and \<open>http.Cookie\<close>
  that the sources read or write. A header is Go's \<open>map[string][]string\<close>, as the list
  of its entries, each key once. The body of a response is what reading it to the
  end gives: the bytes, or the error of \<open>io.ReadAll\<close>. \<open>Expires\<close> counts from Go's zero
  time, so that \<open>IsZero\<close> is being 0.
\<close>

record url =
  Scheme :: string
  Host :: string
  Path :: string
  RawQuery :: string

type_synonym header = "(string \<times> string list) list"

record http_request =
  req_Method :: string
  req_URL :: url
  req_Host :: string
  req_Header :: header
  req_Body :: "string option"

record http_response =
  StatusCode :: int
  res_Header :: header
  res_Body :: "error + string"

record cookie =
  Name :: string
  Value :: string
  cookie_Path :: string
  Domain :: string
  Expires :: int

section \<open>path.go\<close>

definition schemeHttps :: string where "schemeHttps = ''https''"
definition schemeGitHub :: string where "schemeGitHub = ''github''"
definition prefixHttps :: string where "prefixHttps = schemeHttps @ ''://''"
definition prefixGitHub :: string where "prefixGitHub = schemeGitHub @ ''://''"

definition repKey :: "string \<Rightarrow> string" where
  "repKey i = ''RUNN_'' @ TrimSuffix (ToUpper i) ''://'' @ ''_SCHEME''"

text \<open>
  \<open>filepath.SplitList\<close> as on Unix, with the list separator of the platform as a
  parameter: the empty string has no entries.
\<close>

definition SplitList :: "char \<Rightarrow> string \<Rightarrow> string list" where
  "SplitList sep p = (if p = [] then [] else Split p sep)"

definition splitList :: "char \<Rightarrow> string \<Rightarrow> string list" where
  "splitList sep pathp =
     (let rep = [(prefixHttps, repKey prefixHttps), (prefixGitHub, repKey prefixGitHub)];
          per = [(repKey prefixHttps, prefixHttps), (repKey prefixGitHub, prefixGitHub)]
      in map (Replace per) (SplitList sep (Replace rep pathp)))"

text \<open>
  \<open>unique\<close>: the loop over \<open>in\<close> with the result slice \<open>u\<close> and the set of strings seen
  \<open>m\<close> (the keys of the Go map).
\<close>

fun unique_loop :: "string list \<Rightarrow> string list \<Rightarrow> string set \<Rightarrow> string list" where
  "unique_loop [] u m = u"
| "unique_loop (s # rest) u m =
     (if s \<in> m then unique_loop rest u m
      else unique_loop rest (u @ [s]) (insert s m))"

definition unique :: "string list \<Rightarrow> string list" where
  "unique i = unique_loop i [] {}"


text \<open>
  The state of the program: the package variable \<open>globalCacheDir\<close>, and the world
  outside it (files, network, clock), of which the model assumes nothing. What the code
  asks of the operating system and of its libraries is a parameter, one field for each
  call; a call that can change the world returns the new one. The calls of the operating
  system and the network see the world only, never the package variable.
  \<open>fetchPathViaHTTPS\<close> and \<open>fetchPathsViaGitHub\<close> only download and write cache files
  (finding the cache directory with \<open>cacheDir\<close>, which may set the package variable): they
  are parameters on the whole state.
\<close>

record 'w pstate =
  globalCacheDir :: string
  world :: 'w

record ('w, 'fs) path_env =
  PathListSeparator :: char
  ToSlash :: "string \<Rightarrow> string"
  SplitPattern :: "string \<Rightarrow> string \<times> string"
  filepath_Rel :: "string \<Rightarrow> string \<Rightarrow> error + string"
  filepath_Abs :: "string \<Rightarrow> 'w \<Rightarrow> error + string"
  filepath_Join :: "string \<Rightarrow> string \<Rightarrow> string"
  os_Stat :: "string \<Rightarrow> 'w \<Rightarrow> error option"
  os_ReadFile :: "string \<Rightarrow> 'w \<Rightarrow> error + string"
  os_WriteFile :: "string \<Rightarrow> string \<Rightarrow> 'w \<Rightarrow> error option \<times> 'w"
  os_DirFS :: "string \<Rightarrow> 'fs"
  GlobWalk :: "'fs \<Rightarrow> string \<Rightarrow> 'w \<Rightarrow> error + (string \<times> bool) list"
  urlfilepath_Decode :: "string \<Rightarrow> error + url"
  url_Parse :: "string \<Rightarrow> error + url"
  URL_String :: "url \<Rightarrow> string"
  http_NewRequest :: "string \<Rightarrow> string \<Rightarrow> string option \<Rightarrow> error + http_request"
  DefaultClient_Do :: "http_request \<Rightarrow> 'w \<Rightarrow> (error + http_response) \<times> 'w"
  ghfs_New :: "string \<Rightarrow> string \<Rightarrow> 'w \<Rightarrow> (error + 'fs) \<times> 'w"
  fs_Sub :: "'fs \<Rightarrow> string \<Rightarrow> 'w \<Rightarrow> (error + 'fs) \<times> 'w"
  fs_ReadAll :: "'fs \<Rightarrow> string \<Rightarrow> 'w \<Rightarrow> (error + string) \<times> 'w"
  fetchPathViaHTTPS :: "string \<Rightarrow> 'w pstate \<Rightarrow> (error + string) \<times> 'w pstate"
  fetchPathsViaGitHub ::
    "'fs \<Rightarrow> string \<Rightarrow> string \<Rightarrow> 'w pstate \<Rightarrow> (error + string list) \<times> 'w pstate"

definition fileExists :: "('w, 'fs, 'z) path_env_scheme \<Rightarrow> string \<Rightarrow> 'w \<Rightarrow> bool" where
  "fileExists E p w = (os_Stat E p w = None)"

definition readFileViaHTTPS ::
  "('w, 'fs, 'z) path_env_scheme \<Rightarrow> string \<Rightarrow> 'w \<Rightarrow> (error + string) \<times> 'w" where
  "readFileViaHTTPS E urlstr w =
     (case url_Parse E urlstr of
        Inl err \<Rightarrow> (Inl err, w)
      | Inr u \<Rightarrow>
          (case http_NewRequest E ''GET'' (URL_String E u) None of
             Inl err \<Rightarrow> (Inl err, w)
           | Inr req \<Rightarrow>
               (case DefaultClient_Do E req w of
                  (Inl err, w') \<Rightarrow> (Inl err, w')
                | (Inr res, w') \<Rightarrow> (res_Body res, w'))))"

definition readFileViaGitHub ::
  "('w, 'fs, 'z) path_env_scheme \<Rightarrow> string \<Rightarrow> 'w \<Rightarrow> (error + string) \<times> 'w" where
  "readFileViaGitHub E urlstr w =
     (let splitted = Split (TrimPrefix urlstr prefixGitHub) CHR ''/'' in
      if length splitted < 2 then (Inl (InvalidUrl urlstr), w)
      else
        (let owner = splitted ! 0; repo = splitted ! 1;
             p = Join (drop 2 splitted) ''/'' in
         case ghfs_New E owner repo w of
           (Inl err, w') \<Rightarrow> (Inl err, w')
         | (Inr gfs, w') \<Rightarrow> fs_ReadAll E gfs p w'))"

text \<open>
  \<open>readFile\<close>: the value of \<open>globalCacheDir\<close> is the argument \<open>g\<close>. The function does not
  assign the variable, so it returns the result and the new world.
\<close>

definition write_cache ::
  "('w, 'fs, 'z) path_env_scheme \<Rightarrow> string \<Rightarrow> (error + string) \<times> 'w \<Rightarrow> (error + string) \<times> 'w" where
  "write_cache E p fetched =
     (case fetched of
        (Inl err, w') \<Rightarrow> (Inl err, w')
      | (Inr b, w') \<Rightarrow>
          (case os_WriteFile E p b w' of
             (Some err, w'') \<Rightarrow> (Inl err, w'')
           | (None, w'') \<Rightarrow> (Inr b, w'')))"

definition readFile ::
  "('w, 'fs, 'z) path_env_scheme \<Rightarrow> string \<Rightarrow> string \<Rightarrow> 'w \<Rightarrow> (error + string) \<times> 'w" where
  "readFile E g p w =
     (case os_Stat E p w of
        None \<Rightarrow> (os_ReadFile E p w, w)
      | Some err \<Rightarrow>
          if g = [] \<or> \<not> HasPrefix p g then (Inl err, w)
          else
            (case filepath_Rel E g p of
               Inl err \<Rightarrow> (Inl err, w)
             | Inr pathstr \<Rightarrow>
                 (case urlfilepath_Decode E pathstr of
                    Inl err \<Rightarrow> (Inl err, w)
                  | Inr u \<Rightarrow>
                      if Scheme u = schemeHttps
                      then write_cache E p (readFileViaHTTPS E (URL_String E u) w)
                      else if Scheme u = schemeGitHub
                      then write_cache E p (readFileViaGitHub E (URL_String E u) w)
                      else (Inl (UnsupportedScheme (URL_String E u)), w))))"

text \<open>
  \<open>fetchPaths\<close>: the loop over the entries of the path list, with the slice \<open>paths\<close> as
  accumulator. An error return leaves the loop at once.
\<close>

fun fetchPaths_loop ::
  "('w, 'fs, 'z) path_env_scheme \<Rightarrow> string list \<Rightarrow> string list \<Rightarrow> 'w pstate
     \<Rightarrow> (error + string list) \<times> 'w pstate" where
  "fetchPaths_loop E [] paths s = (Inr paths, s)"
| "fetchPaths_loop E (pp # rest) paths s =
     (case SplitPattern E (ToSlash E pp) of (base, pattern) \<Rightarrow>
      if HasPrefix base prefixHttps then
        (if Contains pattern ''*'' then (Inl (HttpsWildcard pp), s)
         else
           (case fetchPathViaHTTPS E pp s of
              (Inl err, s') \<Rightarrow> (Inl err, s')
            | (Inr p, s') \<Rightarrow> fetchPaths_loop E rest (paths @ [p]) s'))
      else if HasPrefix base prefixGitHub then
        (let splitted = Split (TrimPrefix base prefixGitHub) CHR ''/'' in
         if length splitted < 2 then (Inl (InvalidPath pp), s)
         else
           (let owner = splitted ! 0; repo = splitted ! 1; sub = drop 2 splitted in
            case ghfs_New E owner repo (world s) of
              (Inl err, w1) \<Rightarrow> (Inl err, s\<lparr>world := w1\<rparr>)
            | (Inr gfs, w1) \<Rightarrow>
                (case (if sub \<noteq> [] then fs_Sub E gfs (Join sub ''/'') w1
                       else (Inr gfs, w1)) of
                   (Inl err, w2) \<Rightarrow> (Inl err, s\<lparr>world := w2\<rparr>)
                 | (Inr fsys, w2) \<Rightarrow>
                     (case fetchPathsViaGitHub E fsys base pattern (s\<lparr>world := w2\<rparr>) of
                        (Inl err, s') \<Rightarrow> (Inl err, s')
                      | (Inr ps, s') \<Rightarrow> fetchPaths_loop E rest (paths @ ps) s'))))
      else if \<not> Contains pattern ''*'' then
        (case readFile E (globalCacheDir s) pp (world s) of
           (Inr b, w1) \<Rightarrow> fetchPaths_loop E rest (paths @ [pp]) (s\<lparr>world := w1\<rparr>)
         | (Inl err, w1) \<Rightarrow> fetchPaths_loop E rest paths (s\<lparr>world := w1\<rparr>))
      else
        (case filepath_Abs E base (world s) of
           Inl err \<Rightarrow> (Inl err, s)
         | Inr absp \<Rightarrow>
             (case GlobWalk E (os_DirFS E absp) pattern (world s) of
                Inl err \<Rightarrow> (Inl err, s)
              | Inr entries \<Rightarrow>
                  fetchPaths_loop E rest
                    (paths @ map (\<lambda>(p, d). filepath_Join E base p)
                               (filter (\<lambda>(p, d). \<not> d) entries)) s)))"

definition fetchPaths ::
  "('w, 'fs, 'z) path_env_scheme \<Rightarrow> string \<Rightarrow> 'w pstate \<Rightarrow> (error + string list) \<times> 'w pstate" where
  "fetchPaths E pathp s =
     (case fetchPaths_loop E (splitList (PathListSeparator E) pathp) [] s of
        (Inl err, s') \<Rightarrow> (Inl err, s')
      | (Inr paths, s') \<Rightarrow> (Inr (unique paths), s'))"

definition fetchPath ::
  "('w, 'fs, 'z) path_env_scheme \<Rightarrow> string \<Rightarrow> 'w pstate \<Rightarrow> (error + string) \<times> 'w pstate" where
  "fetchPath E path s =
     (case fetchPaths E path s of
        (Inl err, s') \<Rightarrow> (Inl err, s')
      | (Inr paths, s') \<Rightarrow>
          if length paths > 1 then (Inl MultiplePathsFound, s')
          else if length paths = 0 then (Inl PathNotFound, s')
          else (Inr (paths ! 0), s'))"


section \<open>http.go\<close>

definition MediaTypeApplicationJSON :: string where
  "MediaTypeApplicationJSON = ''application/json''"
definition MediaTypeTextPlain :: string where
  "MediaTypeTextPlain = ''text/plain''"
definition MediaTypeApplicationFormUrlencoded :: string where
  "MediaTypeApplicationFormUrlencoded = ''application/x-www-form-urlencoded''"
definition MediaTypeMultipartFormData :: string where
  "MediaTypeMultipartFormData = ''multipart/form-data''"

definition MethodPost :: string where "MethodPost = ''POST''"
definition MethodPatch :: string where "MethodPatch = ''PATCH''"

text \<open>
  A value of Go's type \<open>any\<close>: \<open>nil\<close>, a string, a slice, a map with string keys (in
  the order in which the program ranges over it), or any other value, kept by its
  rendering.
\<close>

datatype any =
    ANil
  | AString string
  | ASlice "any list"
  | AMap "(string \<times> any) list"
  | AOther string

type_synonym jar = "(string \<times> (string \<times> cookie) list) list"

record store =
  cookies :: jar

record operator =
  op_root :: string
  op_store :: store

text \<open>
  \<open>http.Client\<close>: its transport is absent (\<open>nil\<close>), an \<open>*http.Transport\<close>, or another
  round tripper. The validator is the interface \<open>httpValidator\<close>, a pair of checks.
  A handler serves a request in the world.
\<close>

datatype transport = HTTPTransport | OtherRoundTripper

record http_client =
  Transport :: "transport option"

record httpValidator =
  ValidateRequest :: "http_request \<Rightarrow> error option"
  ValidateResponse :: "http_request \<Rightarrow> http_response \<Rightarrow> error option"

record 'w httpRunner =
  name :: string
  endpoint :: "url option"
  client :: "http_client option"
  handler :: "(http_request \<Rightarrow> 'w \<Rightarrow> http_response \<times> 'w) option"
  operator :: operator
  validator :: httpValidator
  rnr_multipartBoundary :: string
  cacert :: string
  cert :: string
  key :: string
  skipVerify :: bool
  rnr_useCookie :: "bool option"

text \<open>
  \<open>httpRequest\<close>. The field \<open>multipartWriter\<close> holds what the code reads of the writer:
  its \<open>FormDataContentType()\<close>; \<open>None\<close> is the \<open>nil\<close> pointer. The field \<open>method\<close> is
  written \<open>httpMethod\<close>.
\<close>

record httpRequest =
  path :: string
  httpMethod :: string
  headers :: "(string \<times> string) list"
  mediaType :: string
  body :: any
  useCookie :: "bool option"
  multipartWriter :: "string option"
  multipartBoundary :: string
  root :: string

text \<open>An IP address is Go's \<open>net.IP\<close>, a slice of bytes.\<close>

type_synonym IP = "nat list"

record ('w, 'fs) http_env = "('w, 'fs) path_env" +
  json_Marshal :: "any \<Rightarrow> error + string"
  json_Unmarshal :: "string \<Rightarrow> error + any"
  form_Encode :: "(string \<times> any) list \<Rightarrow> error + string"
  encodeMultipart :: "httpRequest \<Rightarrow> 'w pstate \<Rightarrow> (error + string \<times> string) \<times> 'w pstate"
  x509_SystemCertPool :: "'w \<Rightarrow> error option"
  AppendCertsFromPEM :: "string \<Rightarrow> bool"
  tls_X509KeyPair :: "string \<Rightarrow> string \<Rightarrow> error option"
  path_Join :: "string \<Rightarrow> string \<Rightarrow> string"
  merge_Query :: "url \<Rightarrow> url \<Rightarrow> string"
  httptest_NewRequest :: "string \<Rightarrow> string \<Rightarrow> string option \<Rightarrow> http_request option"
  URL_Hostname :: "url \<Rightarrow> string"
  CanonicalMIMEHeaderKey :: "string \<Rightarrow> string"
  cookie_String :: "cookie \<Rightarrow> string"
  Response_Cookies :: "http_response \<Rightarrow> cookie list"
  net_LookupIP :: "string \<Rightarrow> 'w \<Rightarrow> error + IP list"
  time_Now :: "'w \<Rightarrow> int"
  client_Do :: "'w httpRunner \<Rightarrow> http_request \<Rightarrow> 'w \<Rightarrow> (error + http_response) \<times> 'w"

definition isMultipartFormDataMediaType :: "httpRequest \<Rightarrow> bool" where
  "isMultipartFormDataMediaType r =
     (if mediaType r = MediaTypeMultipartFormData then True
      else HasPrefix (mediaType r) (MediaTypeMultipartFormData @ ''; boundary=''))"

definition validate :: "httpRequest \<Rightarrow> error option" where
  "validate r =
     (case (if httpMethod r = MethodPost \<or> httpMethod r = MethodPatch then
              (if mediaType r = [] then Some (RequiresMediaType (httpMethod r))
               else if body r = ANil then Some (RequiresBody (httpMethod r))
               else None)
            else None) of
        Some err \<Rightarrow> Some err
      | None \<Rightarrow>
          if isMultipartFormDataMediaType r then None
          else if mediaType r = MediaTypeApplicationJSON \<or> mediaType r = MediaTypeTextPlain
                  \<or> mediaType r = MediaTypeApplicationFormUrlencoded \<or> mediaType r = []
          then None
          else Some (UnsupportedMediaType (mediaType r)))"

text \<open>
  \<open>encodeBody\<close> returns the reader over the encoded body (\<open>None\<close> is the \<open>nil\<close> reader) or
  an error, and the request, whose \<open>multipartWriter\<close> the multipart encoding sets.
  \<open>encodeMultipart\<close>, which reads the files the body names, is a parameter: it gives the
  encoded bytes and the content type of its writer.
\<close>

definition encodeBody ::
  "('w, 'fs) http_env \<Rightarrow> httpRequest \<Rightarrow> 'w pstate
     \<Rightarrow> (error + string option) \<times> httpRequest \<times> 'w pstate" where
  "encodeBody E r s =
     (if body r = ANil then (Inr None, r, s)
      else if isMultipartFormDataMediaType r then
        (case encodeMultipart E r s of
           (Inl err, s') \<Rightarrow> (Inl err, r, s')
         | (Inr (b, ct), s') \<Rightarrow> (Inr (Some b), r\<lparr>multipartWriter := Some ct\<rparr>, s'))
      else if mediaType r = MediaTypeApplicationJSON then
        (case json_Marshal E (body r) of
           Inl err \<Rightarrow> (Inl err, r, s)
         | Inr b \<Rightarrow> (Inr (Some b), r, s))
      else if mediaType r = MediaTypeApplicationFormUrlencoded then
        (case body r of
           AMap values \<Rightarrow>
             (case form_Encode E values of
                Inl err \<Rightarrow> (Inl err, r, s)
              | Inr b \<Rightarrow> (Inr (Some b), r, s))
         | _ \<Rightarrow> (Inl InvalidBody, r, s))
      else if mediaType r = MediaTypeTextPlain then
        (case body r of
           AString str \<Rightarrow> (Inr (Some str), r, s)
         | _ \<Rightarrow> (Inl InvalidBody, r, s))
      else (Inl (UnsupportedMediaType (mediaType r)), r, s))"

text \<open>The assignment \<open>m[k] = v\<close> to a Go map kept as the list of its entries.\<close>

fun map_assign :: "(string \<times> 'v) list \<Rightarrow> string \<Rightarrow> 'v \<Rightarrow> (string \<times> 'v) list" where
  "map_assign [] k v = [(k, v)]"
| "map_assign ((k', v') # m) k v =
     (if k' = k then (k, v) # m else (k', v') # map_assign m k v)"

text \<open>\<open>Header.Set\<close> and \<open>Header.Get\<close> of net/http, on the canonical form of the key.\<close>

definition Header_Set :: "('w, 'fs) http_env \<Rightarrow> header \<Rightarrow> string \<Rightarrow> string \<Rightarrow> header" where
  "Header_Set E h k v = map_assign h (CanonicalMIMEHeaderKey E k) [v]"

definition Header_Get :: "('w, 'fs) http_env \<Rightarrow> header \<Rightarrow> string \<Rightarrow> string" where
  "Header_Get E h k =
     (case map_of h (CanonicalMIMEHeaderKey E k) of
        None \<Rightarrow> []
      | Some [] \<Rightarrow> []
      | Some (v # vs) \<Rightarrow> v)"

text \<open>
  \<open>Request.AddCookie\<close> of net/http: the cookie's \<open>name=value\<close> is appended to the Cookie
  header, after \<open>; \<close> when the header is not empty. It has no error result.
\<close>

definition AddCookie :: "('w, 'fs) http_env \<Rightarrow> http_request \<Rightarrow> cookie \<Rightarrow> http_request" where
  "AddCookie E req c =
     (let s = cookie_String E c; old = Header_Get E (req_Header req) ''Cookie'' in
      req\<lparr>req_Header :=
            Header_Set E (req_Header req) ''Cookie''
              (if old \<noteq> [] then old @ ''; '' @ s else s)\<rparr>)"

text \<open>
  \<open>setContentTypeHeader\<close>: \<open>None\<close> is the panic of calling \<open>FormDataContentType\<close> on a
  \<open>nil\<close> writer.
\<close>

definition setContentTypeHeader ::
  "('w, 'fs) http_env \<Rightarrow> httpRequest \<Rightarrow> http_request \<Rightarrow> http_request option" where
  "setContentTypeHeader E r req =
     (if mediaType r = MediaTypeMultipartFormData then
        (case multipartWriter r of
           None \<Rightarrow> None
         | Some ct \<Rightarrow> Some (req\<lparr>req_Header := Header_Set E (req_Header req) ''Content-Type'' ct\<rparr>))
      else if mediaType r \<noteq> [] then
        Some (req\<lparr>req_Header := Header_Set E (req_Header req) ''Content-Type'' (mediaType r)\<rparr>)
      else Some req)"

text \<open>\<open>IP.To4\<close> and \<open>IP.IsLoopback\<close> of package net.\<close>

definition To4 :: "IP \<Rightarrow> IP option" where
  "To4 ip =
     (if length ip = 4 then Some ip
      else if length ip = 16 \<and> take 10 ip = replicate 10 0 \<and> ip ! 10 = 255 \<and> ip ! 11 = 255
      then Some (drop 12 ip)
      else None)"

definition IsLoopback :: "IP \<Rightarrow> bool" where
  "IsLoopback ip =
     (case To4 ip of
        Some ip4 \<Rightarrow> ip4 ! 0 = 127
      | None \<Rightarrow> ip = replicate 15 0 @ [1])"

fun any_loopback :: "IP list \<Rightarrow> bool" where
  "any_loopback [] = False"
| "any_loopback (ip # ips) = (if IsLoopback ip then True else any_loopback ips)"

definition isLocalhost :: "('w, 'fs) http_env \<Rightarrow> string \<Rightarrow> 'w \<Rightarrow> bool \<times> error option" where
  "isLocalhost E domain w =
     (case net_LookupIP E domain w of
        Inl err \<Rightarrow> (False, Some err)
      | Inr ips \<Rightarrow> if any_loopback ips then (True, None) else (False, None))"

text \<open>
  \<open>setCookieHeader\<close>. The jar is ranged over in the order of the list. The two iterations
  only call \<open>req.AddCookie\<close>: \<open>attachedCookies\<close> is the sequence of the cookies they pass
  to it, and \<open>setCookieHeader\<close> adds them to the request in that order. The clock is read
  in the world the call runs in.
\<close>

fun domainCookies_loop ::
  "('w, 'fs) http_env \<Rightarrow> string \<Rightarrow> 'w \<Rightarrow> (string \<times> cookie) list \<Rightarrow> cookie list" where
  "domainCookies_loop E p w [] = []"
| "domainCookies_loop E p w ((n, c) # rest) =
     (if cookie_Path c = [] \<or> HasPrefix p (cookie_Path c) then
        (if Expires c = 0 \<or> Expires c > time_Now E w
         then c # domainCookies_loop E p w rest
         else domainCookies_loop E p w rest)
      else domainCookies_loop E p w rest)"

fun attachedCookies ::
  "('w, 'fs) http_env \<Rightarrow> string \<Rightarrow> string \<Rightarrow> 'w \<Rightarrow> jar \<Rightarrow> cookie list" where
  "attachedCookies E domain p w [] = []"
| "attachedCookies E domain p w ((host0, domainCookies) # rest) =
     (let splitHostPort = Split host0 CHR '':''; host = splitHostPort ! 0 in
      if host = ''localhost'' then
        (case isLocalhost E domain w of
           (l, err) \<Rightarrow>
             if \<not> l \<or> err \<noteq> None then attachedCookies E domain p w rest
             else domainCookies_loop E p w domainCookies @ attachedCookies E domain p w rest)
      else if \<not> HasSuffix domain host then attachedCookies E domain p w rest
      else domainCookies_loop E p w domainCookies @ attachedCookies E domain p w rest)"

definition setCookieHeader ::
  "('w, 'fs) http_env \<Rightarrow> httpRequest \<Rightarrow> http_request \<Rightarrow> jar \<Rightarrow> 'w \<Rightarrow> http_request" where
  "setCookieHeader E r req cs w =
     (if useCookie r \<noteq> None \<and> the (useCookie r) then
        foldl (AddCookie E) req
          (attachedCookies E (URL_Hostname E (req_URL req)) (Path (req_URL req)) w cs)
      else req)"


text \<open>
  \<open>mergeURL\<close>. The endpoint is a pointer: on \<open>nil\<close> the call \<open>u.String()\<close> panics, after
  the check of the path. A result is a value, an error, or a panic.
\<close>

datatype 'a result = Val 'a | Fail error | Panic string

definition mergeURL :: "('w, 'fs) http_env \<Rightarrow> url option \<Rightarrow> string \<Rightarrow> url result" where
  "mergeURL E u p =
     (if \<not> HasPrefix p ''/'' then Fail (InvalidPath p)
      else
        (case u of
           None \<Rightarrow> Panic ''nil pointer dereference''
         | Some u' \<Rightarrow>
             (case url_Parse E (URL_String E u') of
                Inl err \<Rightarrow> Fail err
              | Inr m \<Rightarrow>
                  (case url_Parse E p of
                     Inl err \<Rightarrow> Fail err
                   | Inr a \<Rightarrow>
                       Val (m\<lparr>Path := path_Join E (Path m) (Path a),
                               RawQuery := merge_Query E u' a\<rparr>)))))"

text \<open>
  What \<open>Run\<close> stores under the key \<open>res\<close>: the map \<open>d\<close> with its keys \<open>status\<close>, \<open>body\<close>,
  \<open>rawBody\<close>, \<open>headers\<close> and \<open>cookies\<close>.
\<close>

record outcome =
  res_status :: int
  res_body :: any
  res_rawBody :: string
  res_headers :: header
  res_cookies :: "(string \<times> cookie) list"

text \<open>
  The operator's methods that \<open>Run\<close> calls (\<open>capturers.captureHTTPRequest\<close>,
  \<open>capturers.captureHTTPResponse\<close>, \<open>Debugf\<close>, \<open>recordToCookie\<close>, \<open>record\<close>) have no result:
  \<open>Run\<close> hands them a value and goes on. The model keeps the calls, in program order,
  together with the call of the backend (\<open>client.Do\<close> or \<open>handler.ServeHTTP\<close>), as a log
  of events. An Outcome is recorded when \<open>Record\<close> is in the log.
\<close>

datatype event =
    CaptureHTTPRequest string http_request
  | BackendCall http_request
  | CaptureHTTPResponse string http_response
  | Debugf error
  | RecordToCookie "cookie list"
  | Record outcome

text \<open>\<open>Run\<close> returns an error value (\<open>None\<close> is \<open>nil\<close>) or panics.\<close>

datatype run_result = Return "error option" | Panicked string

text \<open>
  The part of the client branch that sets up TLS. \<open>Some ret\<close>: \<open>Run\<close> returns \<open>ret\<close>
  there. When the certificates of \<open>cacert\<close> cannot be appended, the code returns the
  error of \<open>x509.SystemCertPool\<close>, which is \<open>nil\<close> when the system pool was loaded. A
  \<open>nil\<close> transport has been replaced by a clone of the default \<open>*http.Transport\<close> before.
  The TLS configuration is a function of the runner's fields, which \<open>client_Do\<close> is given.
\<close>

definition isHTTPTransport :: "http_client \<Rightarrow> bool" where
  "isHTTPTransport cl = (Transport cl \<noteq> Some OtherRoundTripper)"

definition configureCerts ::
  "('w, 'fs) http_env \<Rightarrow> 'w httpRunner \<Rightarrow> http_client \<Rightarrow> error option option" where
  "configureCerts E rnr cl =
     (if length (cert rnr) \<noteq> 0 \<and> length (key rnr) \<noteq> 0 then
        (case tls_X509KeyPair E (cert rnr) (key rnr) of
           Some err \<Rightarrow> Some (Some err)
         | None \<Rightarrow> if \<not> isHTTPTransport cl then Some (Some CouldNotSetCertificates) else None)
      else None)"

definition configureTLS ::
  "('w, 'fs) http_env \<Rightarrow> 'w httpRunner \<Rightarrow> http_client \<Rightarrow> 'w \<Rightarrow> error option option" where
  "configureTLS E rnr cl w =
     (if length (cacert rnr) \<noteq> 0 then
        (let err = x509_SystemCertPool E w in
         if \<not> AppendCertsFromPEM E (cacert rnr) then Some err
         else if \<not> isHTTPTransport cl then Some (Some CouldNotSetCacert)
         else configureCerts E rnr cl)
      else configureCerts E rnr cl)"

fun setHeaders ::
  "('w, 'fs) http_env \<Rightarrow> bool \<Rightarrow> (string \<times> string) list \<Rightarrow> http_request \<Rightarrow> http_request" where
  "setHeaders E withHost [] req = req"
| "setHeaders E withHost ((k, v) # rest) req =
     (let req1 = req\<lparr>req_Header := Header_Set E (req_Header req) k v\<rparr>;
          req2 = (if withHost \<and> k = ''Host'' then req1\<lparr>req_Host := v\<rparr> else req1)
      in setHeaders E withHost rest req2)"

text \<open>
  The two branches of the \<open>switch\<close> up to the request that they build (lines 653 to
  713 and 727 to 733): \<open>Inl\<close> is a return or a panic of \<open>Run\<close>, \<open>Inr\<close> the request that
  is handed to the capturers next. The client branch sets \<open>useCookie\<close> of the
  \<open>httpRequest\<close>, which is not read again after the branch.
\<close>

definition clientRequest ::
  "('w, 'fs) http_env \<Rightarrow> 'w httpRunner \<Rightarrow> http_client \<Rightarrow> httpRequest \<Rightarrow> string option
     \<Rightarrow> 'w \<Rightarrow> run_result + http_request" where
  "clientRequest E rnr cl r reqBody w =
     (case configureTLS E rnr cl w of
        Some ret \<Rightarrow> Inl (Return ret)
      | None \<Rightarrow>
          (case mergeURL E (endpoint rnr) (path r) of
             Fail err \<Rightarrow> Inl (Return (Some err))
           | Panic m \<Rightarrow> Inl (Panicked m)
           | Val u \<Rightarrow>
               (case http_NewRequest E (httpMethod r) (URL_String E u) reqBody of
                  Inl err \<Rightarrow> Inl (Return (Some err))
                | Inr req0 \<Rightarrow>
                    (case setContentTypeHeader E r req0 of
                       None \<Rightarrow> Inl (Panicked ''nil pointer dereference'')
                     | Some req1 \<Rightarrow>
                         (let r' = (if useCookie r = None \<and> rnr_useCookie rnr \<noteq> None
                                       \<and> the (rnr_useCookie rnr)
                                    then r\<lparr>useCookie := rnr_useCookie rnr\<rparr> else r);
                              req2 = setCookieHeader E r' req1
                                       (cookies (op_store (operator rnr))) w
                          in Inr (setHeaders E True (headers r') req2))))))"

definition handlerRequest ::
  "('w, 'fs) http_env \<Rightarrow> httpRequest \<Rightarrow> string option \<Rightarrow> run_result + http_request" where
  "handlerRequest E r reqBody =
     (case httptest_NewRequest E (httpMethod r) (path r) reqBody of
        None \<Rightarrow> Inl (Panicked ''httptest.NewRequest'')
      | Some req0 \<Rightarrow>
          (let req1 = (if mediaType r \<noteq> []
                       then req0\<lparr>req_Header :=
                                   Header_Set E (req_Header req0) ''Content-Type'' (mediaType r)\<rparr>
                       else req0)
           in Inr (setHeaders E False (headers r) req1)))"

text \<open>
  The rest of a branch, from the request to the answer of the backend. After the
  notification of the request (lines 715 and 735) the request validator runs, then the
  backend call \<open>send\<close>: \<open>Inl\<close> is a return of \<open>Run\<close>, \<open>Inr\<close> the request sent and the
  response obtained; with them the events and the new state.
\<close>

definition validateThenSend ::
  "'w httpRunner \<Rightarrow> http_request \<Rightarrow> (http_request \<Rightarrow> 'w \<Rightarrow> (error + http_response) \<times> 'w)
     \<Rightarrow> 'w pstate
     \<Rightarrow> (run_result + http_request \<times> http_response) \<times> event list \<times> 'w pstate" where
  "validateThenSend rnr req send s =
     (case ValidateRequest (validator rnr) req of
        Some err \<Rightarrow> (Inl (Return (Some err)), [], s)
      | None \<Rightarrow>
          (case send req (world s) of
             (Inl err, w') \<Rightarrow> (Inl (Return (Some err)), [BackendCall req], s\<lparr>world := w'\<rparr>)
           | (Inr res, w') \<Rightarrow> (Inr (req, res), [BackendCall req], s\<lparr>world := w'\<rparr>)))"

definition validateAndSend ::
  "'w httpRunner \<Rightarrow> http_request \<Rightarrow> (http_request \<Rightarrow> 'w \<Rightarrow> (error + http_response) \<times> 'w)
     \<Rightarrow> 'w pstate
     \<Rightarrow> (run_result + http_request \<times> http_response) \<times> event list \<times> 'w pstate" where
  "validateAndSend rnr req send s =
     (case validateThenSend rnr req send s of
        (x, evs, s') \<Rightarrow> (x, CaptureHTTPRequest (name rnr) req # evs, s'))"

definition sendViaClient ::
  "('w, 'fs) http_env \<Rightarrow> 'w httpRunner \<Rightarrow> http_client \<Rightarrow> httpRequest \<Rightarrow> string option
     \<Rightarrow> 'w pstate
     \<Rightarrow> (run_result + http_request \<times> http_response) \<times> event list \<times> 'w pstate" where
  "sendViaClient E rnr cl r reqBody s =
     (case clientRequest E rnr cl r reqBody (world s) of
        Inl ret \<Rightarrow> (Inl ret, [], s)
      | Inr req \<Rightarrow> validateAndSend rnr req (client_Do E rnr) s)"

definition sendViaHandler ::
  "('w, 'fs) http_env \<Rightarrow> 'w httpRunner \<Rightarrow> (http_request \<Rightarrow> 'w \<Rightarrow> http_response \<times> 'w)
     \<Rightarrow> httpRequest \<Rightarrow> string option \<Rightarrow> 'w pstate
     \<Rightarrow> (run_result + http_request \<times> http_response) \<times> event list \<times> 'w pstate" where
  "sendViaHandler E rnr h r reqBody s =
     (case handlerRequest E r reqBody of
        Inl ret \<Rightarrow> (Inl ret, [], s)
      | Inr req \<Rightarrow>
          validateAndSend rnr req (\<lambda>req w. case h req w of (res, w') \<Rightarrow> (Inr res, w')) s)"

text \<open>
  The code after the \<open>switch\<close>. The JSON decoding of the body; the cookies of the
  response, whose empty \<open>Domain\<close> takes the host of the endpoint, keyed by name (a later
  cookie of the same name replaces an earlier one); and the calls of the operator.
  \<open>handleResponse\<close> is the notification of the response (line 748) and then
  \<open>processResponse\<close>, the lines 750 to 801.
\<close>

definition decodeBody ::
  "('w, 'fs) http_env \<Rightarrow> http_response \<Rightarrow> string \<Rightarrow> error + any" where
  "decodeBody E res resBody =
     (if Contains (Header_Get E (res_Header res) ''Content-Type'') ''json''
         \<and> length resBody > 0
      then json_Unmarshal E resBody
      else Inr ANil)"

definition takeOverHost :: "url option \<Rightarrow> cookie \<Rightarrow> cookie" where
  "takeOverHost ep c =
     (if Domain c = [] \<and> ep \<noteq> None then c\<lparr>Domain := Host (the ep)\<rparr> else c)"

definition keyMap_of :: "cookie list \<Rightarrow> (string \<times> cookie) list" where
  "keyMap_of cs = foldl (\<lambda>m c. map_assign m (Name c) c) [] cs"

definition processResponse ::
  "('w, 'fs) http_env \<Rightarrow> 'w httpRunner \<Rightarrow> http_request \<Rightarrow> http_response
     \<Rightarrow> run_result \<times> event list" where
  "processResponse E rnr req res =
     (case (case ValidateResponse (validator rnr) req res of
              None \<Rightarrow> Inr []
            | Some err \<Rightarrow> if As_UnsupportedError err then Inr [Debugf err] else Inl err) of
        Inl err \<Rightarrow> (Return (Some err), [])
      | Inr dbg \<Rightarrow>
          (case res_Body res of
             Inl err \<Rightarrow> (Return (Some err), dbg)
           | Inr resBody \<Rightarrow>
               (case decodeBody E res resBody of
                  Inl err \<Rightarrow> (Return (Some err), dbg)
                | Inr b \<Rightarrow>
                    (let cs = map (takeOverHost (endpoint rnr)) (Response_Cookies E res);
                         d = \<lparr>res_status = StatusCode res, res_body = b,
                              res_rawBody = resBody, res_headers = res_Header res,
                              res_cookies = (if length cs > 0 then keyMap_of cs else [])\<rparr>
                     in (Return None,
                         dbg @ (if length cs > 0 then [RecordToCookie cs] else [])
                          @ [Record d])))))"

definition handleResponse ::
  "('w, 'fs) http_env \<Rightarrow> 'w httpRunner \<Rightarrow> http_request \<Rightarrow> http_response
     \<Rightarrow> run_result \<times> event list" where
  "handleResponse E rnr req res =
     (case processResponse E rnr req res of
        (ret, evs) \<Rightarrow> (ret, CaptureHTTPResponse (name rnr) res # evs))"

text \<open>The \<open>switch\<close> on the runner's client and handler.\<close>

definition sendRequest ::
  "('w, 'fs) http_env \<Rightarrow> 'w httpRunner \<Rightarrow> httpRequest \<Rightarrow> string option \<Rightarrow> 'w pstate
     \<Rightarrow> (run_result + http_request \<times> http_response) \<times> event list \<times> 'w pstate" where
  "sendRequest E rnr r reqBody s =
     (case client rnr of
        Some cl \<Rightarrow> sendViaClient E rnr cl r reqBody s
      | None \<Rightarrow>
          (case handler rnr of
             Some h \<Rightarrow> sendViaHandler E rnr h r reqBody s
           | None \<Rightarrow> (Inl (Return (Some (InvalidHTTPRunner (name rnr)))), [], s)))"

definition Run ::
  "('w, 'fs) http_env \<Rightarrow> 'w httpRunner \<Rightarrow> httpRequest \<Rightarrow> 'w pstate
     \<Rightarrow> run_result \<times> event list \<times> 'w pstate" where
  "Run E rnr r0 s =
     (let r1 = r0\<lparr>multipartBoundary := rnr_multipartBoundary rnr,
                  root := op_root (operator rnr)\<rparr> in
      case encodeBody E r1 s of
        (Inl err, r, s1) \<Rightarrow> (Return (Some err), [], s1)
      | (Inr reqBody, r, s1) \<Rightarrow>
          (case sendRequest E rnr r reqBody s1 of
             (Inl ret, evs, s2) \<Rightarrow> (ret, evs, s2)
           | (Inr (req, res), evs, s2) \<Rightarrow>
               (case handleResponse E rnr req res of
                  (ret, evs') \<Rightarrow> (ret, evs @ evs', s2))))"









section \<open>Loop Controller\<close>

text \<open>
  Modelled from the spec: the states of the Loop Controller. The code that iterates over a
  step's invocation is not among the sources, which hold only the book
  \<open>testdata/book/loop.yml\<close>.
\<close>

datatype loop_state = Pending | Iterating | Satisfied | Exhausted | Failed

text \<open>
  Modelled from the spec: a LoopSpec after its count has been resolved, with the count,
  the interval and the optional until expression.
\<close>

record 'x LoopSpec =
  loop_count :: nat
  loop_interval :: nat
  loop_until :: "'x option"

text \<open>
  Modelled from the spec: what the Loop Controller is given. The wrapped invocation
  returns an Outcome or an error and changes the state of the runner; the evaluator
  gives a truth value or an error for the until expression on the current Outcome and
  the iteration index; the delay returns an error when it is cancelled.
\<close>

record ('r, 'o, 'x) loop_env =
  invoke :: "'r \<Rightarrow> (error + 'o) \<times> 'r"
  evaluate :: "'x \<Rightarrow> 'o \<Rightarrow> nat \<Rightarrow> error + bool"
  delay :: "nat \<Rightarrow> 'r \<Rightarrow> error option \<times> 'r"

text \<open>
  Modelled from the spec: the result of a loop, its terminal state, the number of
  invocations made, the \<open>current\<close> Outcome and the state of the runner.
\<close>

record ('r, 'o) loop_run =
  final :: loop_state
  invocations :: nat
  current :: "'o option"
  runner_state :: 'r

text \<open>
  Modelled from the spec: the iterations of the Loop Controller (section 4.4), with
  \<open>k\<close> iterations left, at iteration index \<open>i\<close>, after \<open>n\<close> invocations. The interval is
  waited between iterations, from the second on, and a cancelled delay ends the loop as
  \<open>Failed\<close>; an error of the invocation or of the until expression ends it as \<open>Failed\<close>;
  a true until expression ends it as \<open>Satisfied\<close>; when the count is reached the loop is
  \<open>Satisfied\<close> without an until expression and \<open>Exhausted\<close> with one.
\<close>

fun iterate ::
  "('r, 'o, 'x) loop_env \<Rightarrow> 'x LoopSpec \<Rightarrow> nat \<Rightarrow> nat \<Rightarrow> nat \<Rightarrow> 'o option \<Rightarrow> 'r
     \<Rightarrow> ('r, 'o) loop_run" where
  "iterate L spec 0 i n cur r =
     \<lparr>final = (if loop_until spec = None then Satisfied else Exhausted),
      invocations = n, current = cur, runner_state = r\<rparr>"
| "iterate L spec (Suc k) i n cur r =
     (case (if i > 0 then delay L (loop_interval spec) r else (None, r)) of
        (Some err, r1) \<Rightarrow>
          \<lparr>final = Failed, invocations = n, current = cur, runner_state = r1\<rparr>
      | (None, r1) \<Rightarrow>
          (case invoke L r1 of
             (Inl err, r2) \<Rightarrow>
               \<lparr>final = Failed, invocations = Suc n, current = cur, runner_state = r2\<rparr>
           | (Inr out, r2) \<Rightarrow>
               (case loop_until spec of
                  None \<Rightarrow> iterate L spec k (Suc i) (Suc n) (Some out) r2
                | Some e \<Rightarrow>
                    (case evaluate L e out i of
                       Inl err \<Rightarrow>
                         \<lparr>final = Failed, invocations = Suc n, current = Some out,
                          runner_state = r2\<rparr>
                     | Inr True \<Rightarrow>
                         \<lparr>final = Satisfied, invocations = Suc n, current = Some out,
                          runner_state = r2\<rparr>
                     | Inr False \<Rightarrow> iterate L spec k (Suc i) (Suc n) (Some out) r2))))"

text \<open>Modelled from the spec: a loop starts with its count, at index 0, with no Outcome.\<close>

definition runLoop ::
  "('r, 'o, 'x) loop_env \<Rightarrow> 'x LoopSpec \<Rightarrow> 'r \<Rightarrow> ('r, 'o) loop_run" where
  "runLoop L spec r = iterate L spec (loop_count spec) 0 0 None r"

section \<open>Positions in a list\<close>

text \<open>The position of the first occurrence of an element, the length when there is none.\<close>

fun first_index :: "'a list \<Rightarrow> 'a \<Rightarrow> nat" where
  "first_index [] a = 0"
| "first_index (x # xs) a = (if x = a then 0 else Suc (first_index xs a))"

section \<open>Notions used in the properties of Run\<close>

text \<open>
  The backend call of a runner, as the \<open>switch\<close> of \<open>Run\<close> makes it: \<open>client.Do\<close> when
  the runner has a client, else \<open>ServeHTTP\<close> of its handler, which always gives a
  response.
\<close>

definition backend ::
  "('w, 'fs) http_env \<Rightarrow> 'w httpRunner \<Rightarrow> http_request \<Rightarrow> 'w \<Rightarrow> (error + http_response) \<times> 'w" where
  "backend E rnr req w =
     (case client rnr of
        Some cl \<Rightarrow> client_Do E rnr req w
      | None \<Rightarrow>
          (case handler rnr of
             Some h \<Rightarrow> (case h req w of (res, w') \<Rightarrow> (Inr res, w'))
           | None \<Rightarrow> (Inl (InvalidHTTPRunner (name rnr)), w)))"

text \<open>
  The three outcomes of \<open>validateAndSend\<close> for the request \<open>req\<close>: rejected by the
  request validator, failed in the backend, answered by the backend.
\<close>

definition sent ::
  "('w, 'fs) http_env \<Rightarrow> 'w httpRunner \<Rightarrow> 'w pstate
     \<Rightarrow> (run_result + http_request \<times> http_response) \<times> event list \<times> 'w pstate \<Rightarrow> http_request \<Rightarrow> bool" where
  "sent E rnr s out req \<longleftrightarrow>
     (case out of (x, evs, s') \<Rightarrow>
       (\<exists>e. ValidateRequest (validator rnr) req = Some e \<and> x = Inl (Return (Some e))
            \<and> evs = [CaptureHTTPRequest (name rnr) req] \<and> s' = s)
       \<or> (\<exists>e w'. ValidateRequest (validator rnr) req = None \<and> backend E rnr req (world s) = (Inl e, w')
            \<and> client rnr \<noteq> None
            \<and> x = Inl (Return (Some e))
            \<and> evs = [CaptureHTTPRequest (name rnr) req, BackendCall req] \<and> s' = s\<lparr>world := w'\<rparr>)
       \<or> (\<exists>res w'. ValidateRequest (validator rnr) req = None \<and> backend E rnr req (world s) = (Inr res, w')
            \<and> x = Inr (req, res)
            \<and> evs = [CaptureHTTPRequest (name rnr) req, BackendCall req] \<and> s' = s\<lparr>world := w'\<rparr>))"

text \<open>
  The response validator lets \<open>Run\<close> go on: it accepts the response, or its error is an
  \<open>UnsupportedError\<close>, which \<open>Run\<close> only logs.
\<close>

definition accepted :: "'w httpRunner \<Rightarrow> http_request \<Rightarrow> http_response \<Rightarrow> bool" where
  "accepted rnr req res =
     (case ValidateResponse (validator rnr) req res of
        None \<Rightarrow> True
      | Some err \<Rightarrow> As_UnsupportedError err)"

text \<open>
  The events that can follow the notification of the response: the calls \<open>Debugf\<close> and
  \<open>recordToCookie\<close>, and with them \<open>record\<close>.
\<close>

fun is_note :: "event \<Rightarrow> bool" where
  "is_note (Debugf e) = True"
| "is_note (RecordToCookie cs) = True"
| "is_note ev = False"


text \<open>
  The failures after which \<open>Run\<close> returns an error. A request construction failure:
  the body cannot be encoded, the TLS configuration of the client fails, the URL cannot
  be merged, the request cannot be built, or the runner has neither client nor handler.
  A request validation failure: the validator rejects the request that was notified. A
  response validation failure: the validator rejects the response that was notified, for
  another reason than an unsupported format. A transport-level failure: \<open>client.Do\<close>
  fails, the body of the response cannot be read, or a body announced as JSON cannot be
  parsed.
\<close>

definition request_construction_failure ::
  "('w, 'fs) http_env \<Rightarrow> 'w httpRunner \<Rightarrow> httpRequest \<Rightarrow> 'w pstate \<Rightarrow> error \<Rightarrow> bool" where
  "request_construction_failure E rnr r s e \<longleftrightarrow>
     (\<exists>r' s1. encodeBody E (r\<lparr>multipartBoundary := rnr_multipartBoundary rnr,
                                root := op_root (operator rnr)\<rparr>) s = (Inl e, r', s1))
     \<or> (\<exists>cl w. client rnr = Some cl \<and> configureTLS E rnr cl w = Some (Some e))
     \<or> mergeURL E (endpoint rnr) (path r) = Fail e
     \<or> (\<exists>u b. http_NewRequest E (httpMethod r) u b = Inl e)
     \<or> (client rnr = None \<and> handler rnr = None \<and> e = InvalidHTTPRunner (name rnr))"

definition request_validation_failure ::
  "'w httpRunner \<Rightarrow> event list \<Rightarrow> error \<Rightarrow> bool" where
  "request_validation_failure rnr evs e \<longleftrightarrow>
     (\<exists>req. CaptureHTTPRequest (name rnr) req \<in> set evs
        \<and> ValidateRequest (validator rnr) req = Some e)"

definition response_validation_failure ::
  "'w httpRunner \<Rightarrow> event list \<Rightarrow> error \<Rightarrow> bool" where
  "response_validation_failure rnr evs e \<longleftrightarrow>
     (\<exists>req res. BackendCall req \<in> set evs \<and> CaptureHTTPResponse (name rnr) res \<in> set evs
        \<and> ValidateResponse (validator rnr) req res = Some e \<and> \<not> As_UnsupportedError e)"

definition transport_failure ::
  "('w, 'fs) http_env \<Rightarrow> 'w httpRunner \<Rightarrow> event list \<Rightarrow> error \<Rightarrow> bool" where
  "transport_failure E rnr evs e \<longleftrightarrow>
     (\<exists>req w w'. BackendCall req \<in> set evs \<and> client_Do E rnr req w = (Inl e, w'))
     \<or> (\<exists>res. CaptureHTTPResponse (name rnr) res \<in> set evs \<and> res_Body res = Inl e)
     \<or> (\<exists>res b. CaptureHTTPResponse (name rnr) res \<in> set evs \<and> res_Body res = Inr b
          \<and> Contains (Header_Get E (res_Header res) ''Content-Type'') ''json'' \<and> b \<noteq> []
          \<and> json_Unmarshal E b = Inl e)"

text \<open>
  The request that \<open>Run\<close> builds, with the state in which it is built: the body is
  encoded and the branch of the \<open>switch\<close> gives a request. \<open>None\<close>: \<open>Run\<close> returns or
  panics before it has a request.
\<close>

definition builtRequest ::
  "('w, 'fs) http_env \<Rightarrow> 'w httpRunner \<Rightarrow> httpRequest \<Rightarrow> 'w pstate
     \<Rightarrow> (http_request \<times> 'w pstate) option" where
  "builtRequest E rnr r0 s =
     (let r1 = r0\<lparr>multipartBoundary := rnr_multipartBoundary rnr,
                  root := op_root (operator rnr)\<rparr> in
      case encodeBody E r1 s of
        (Inl err, r, s1) \<Rightarrow> None
      | (Inr reqBody, r, s1) \<Rightarrow>
          (case client rnr of
             Some cl \<Rightarrow>
               (case clientRequest E rnr cl r reqBody (world s1) of
                  Inl ret \<Rightarrow> None
                | Inr req \<Rightarrow> Some (req, s1))
           | None \<Rightarrow>
               (case handler rnr of
                  Some h \<Rightarrow>
                    (case handlerRequest E r reqBody of
                       Inl ret \<Rightarrow> None
                     | Inr req \<Rightarrow> Some (req, s1))
                | None \<Rightarrow> None)))"




section \<open>Notions used in the properties of the Loop Controller\<close>

text \<open>
  The invocations that a loop makes all return: with \<open>k\<close> iterations left at index \<open>i\<close>
  and the runner in state \<open>r\<close>, no delay that the loop waits is cancelled and every
  invocation that it makes returns an Outcome, whatever the Outcome is. Only the delays
  and the invocations that the loop reaches are looked at, each in the state of the runner
  in which the loop makes it.
\<close>

fun invocations_return ::
  "('r, 'o, 'x) loop_env \<Rightarrow> 'x LoopSpec \<Rightarrow> nat \<Rightarrow> nat \<Rightarrow> 'r \<Rightarrow> bool" where
  "invocations_return L spec 0 i r = True"
| "invocations_return L spec (Suc k) i r =
     (case (if i > 0 then delay L (loop_interval spec) r else (None, r)) of
        (Some err, r1) \<Rightarrow> False
      | (None, r1) \<Rightarrow>
          (case invoke L r1 of
             (Inl err, r2) \<Rightarrow> False
           | (Inr out, r2) \<Rightarrow> invocations_return L spec k (Suc i) r2))"

section \<open>Concrete inputs\<close>

text \<open>
  A small world for running the definitions: the files are a list of paths with their
  contents, the network answers every request with status 200 and the body \<open>remote\<close>,
  the clock stands at 1000 and the names that resolve are \<open>localhost\<close> and \<open>127.0.0.1\<close>.
\<close>

type_synonym files = "(string \<times> string) list"

definition plain_request :: "string \<Rightarrow> string \<Rightarrow> string option \<Rightarrow> http_request" where
  "plain_request m target b =
     \<lparr>req_Method = m,
      req_URL = \<lparr>Scheme = ''https'', Host = ''example.com'', Path = target, RawQuery = []\<rparr>,
      req_Host = ''example.com'', req_Header = [], req_Body = b\<rparr>"

definition plain_response :: "int \<Rightarrow> string \<Rightarrow> string \<Rightarrow> http_response" where
  "plain_response st ct b =
     \<lparr>StatusCode = st,
      res_Header = (if ct \<noteq> [] then [(''Content-Type'', [ct])] else []),
      res_Body = Inr b\<rparr>"

text \<open>
  URLs as the small world reads them. \<open>strings.Cut\<close> gives the text before and after
  the first occurrence of a separator. \<open>url.Parse\<close> reads \<open>scheme://host/path\<close>, and a
  text without \<open>://\<close> as a path alone (the URLs used here have no query).
  \<open>urlfilepath.Decode\<close> reads the cache path \<open>scheme/host/path\<close> of a URL; a path of a
  single element, which encodes no URL, gives a URL without scheme. \<open>http.NewRequest\<close>
  parses its URL and takes the host from it.
\<close>

fun Cut :: "string \<Rightarrow> string \<Rightarrow> (string \<times> string) option" where
  "Cut [] sep = None"
| "Cut (c # cs) sep =
     (if HasPrefix (c # cs) sep then Some ([], drop (length sep) (c # cs))
      else (case Cut cs sep of None \<Rightarrow> None | Some (a, b) \<Rightarrow> Some (c # a, b)))"

definition parse_url :: "string \<Rightarrow> url" where
  "parse_url u =
     (case Cut u ''://'' of
        None \<Rightarrow> \<lparr>Scheme = [], Host = [], Path = u, RawQuery = []\<rparr>
      | Some (sch, rest) \<Rightarrow>
          (case Cut rest ''/'' of
             None \<Rightarrow> \<lparr>Scheme = sch, Host = rest, Path = [], RawQuery = []\<rparr>
           | Some (h, p) \<Rightarrow> \<lparr>Scheme = sch, Host = h, Path = CHR ''/'' # p, RawQuery = []\<rparr>))"

definition decode_path :: "string \<Rightarrow> url" where
  "decode_path p =
     (case Split p CHR ''/'' of
        sch # h # rest \<Rightarrow>
          \<lparr>Scheme = sch, Host = h, Path = CHR ''/'' # Join rest ''/'', RawQuery = []\<rparr>
      | _ \<Rightarrow> \<lparr>Scheme = [], Host = [], Path = p, RawQuery = []\<rparr>)"

definition new_request :: "string \<Rightarrow> string \<Rightarrow> string option \<Rightarrow> http_request" where
  "new_request m u b =
     \<lparr>req_Method = m, req_URL = parse_url u, req_Host = Host (parse_url u),
      req_Header = [], req_Body = b\<rparr>"

definition small_env :: "(files, unit) http_env" where
  "small_env =
     \<lparr>PathListSeparator = CHR '':'',
      ToSlash = (\<lambda>p. p),
      SplitPattern = (\<lambda>p. ([], p)),
      filepath_Rel = (\<lambda>b t. Inr (drop (Suc (length b)) t)),
      filepath_Abs = (\<lambda>p w. Inr p),
      filepath_Join = (\<lambda>a b. a @ ''/'' @ b),
      os_Stat = (\<lambda>p w. if map_of w p = None then Some (External ''no such file'') else None),
      os_ReadFile = (\<lambda>p w. case map_of w p of None \<Rightarrow> Inl (External ''no such file'')
                                              | Some b \<Rightarrow> Inr b),
      os_WriteFile = (\<lambda>p b w. (None, (p, b) # w)),
      os_DirFS = (\<lambda>p. ()),
      GlobWalk = (\<lambda>f pat w. Inr []),
      urlfilepath_Decode = (\<lambda>p. Inr (decode_path p)),
      url_Parse = (\<lambda>u. Inr (parse_url u)),
      URL_String = (\<lambda>u. (if Scheme u = [] then [] else Scheme u @ ''://'') @ Host u @ Path u),
      http_NewRequest = (\<lambda>m u b. Inr (new_request m u b)),
      DefaultClient_Do = (\<lambda>req w. (Inr (plain_response 200 [] ''remote''), w)),
      ghfs_New = (\<lambda>owner repo w. (Inl (External ''no network''), w)),
      fs_Sub = (\<lambda>f p w. (Inr f, w)),
      fs_ReadAll = (\<lambda>f p w. (Inl (External ''no network''), w)),
      fetchPathViaHTTPS = (\<lambda>u s. (Inl (External ''no network''), s)),
      fetchPathsViaGitHub = (\<lambda>f b pat s. (Inl (External ''no network''), s)),
      json_Marshal = (\<lambda>v. Inr ''{}''),
      json_Unmarshal = (\<lambda>b. if b = ''{}'' then Inr (AMap [])
                               else Inl (External ''invalid character'')),
      form_Encode = (\<lambda>vs. Inr []),
      encodeMultipart = (\<lambda>r s. (Inl (External ''no files''), s)),
      x509_SystemCertPool = (\<lambda>w. None),
      AppendCertsFromPEM = (\<lambda>pem. False),
      tls_X509KeyPair = (\<lambda>c k. Some (External ''no key pair'')),
      path_Join = (\<lambda>a b. a @ b),
      merge_Query = (\<lambda>u a. []),
      httptest_NewRequest = (\<lambda>m target b. Some (plain_request m target b)),
      URL_Hostname = (\<lambda>u. Host u),
      CanonicalMIMEHeaderKey = (\<lambda>k. k),
      cookie_String = (\<lambda>c. Name c @ ''='' @ Value c),
      Response_Cookies = (\<lambda>res. []),
      net_LookupIP = (\<lambda>d w. if d = ''localhost'' \<or> d = ''127.0.0.1'' then Inr [[127, 0, 0, 1]]
                                else Inl (External ''no such host'')),
      time_Now = (\<lambda>w. 1000),
      client_Do = (\<lambda>rnr req w. (Inr (plain_response 200 [] ''remote''), w))\<rparr>"

definition two_files :: "files pstate" where
  "two_files = \<lparr>globalCacheDir = [], world = [(''a.yml'', ''x''), (''b.yml'', ''y'')]\<rparr>"

definition request_of :: "string \<Rightarrow> string \<Rightarrow> any \<Rightarrow> httpRequest" where
  "request_of m mt b =
     \<lparr>path = ''/users'', httpMethod = m, headers = [], mediaType = mt, body = b,
      useCookie = None, multipartWriter = None, multipartBoundary = [], root = []\<rparr>"

definition session_cookie :: cookie where
  "session_cookie = \<lparr>Name = ''sid'', Value = ''1'', cookie_Path = [], Domain = ''localhost'', Expires = 0\<rparr>"

definition local_jar :: jar where
  "local_jar = [(''localhost'', [(''sid'', session_cookie)])]"

definition local_request :: http_request where
  "local_request =
     \<lparr>req_Method = ''GET'',
      req_URL = \<lparr>Scheme = ''http'', Host = ''127.0.0.1'', Path = ''/'', RawQuery = []\<rparr>,
      req_Host = ''127.0.0.1'', req_Header = [], req_Body = None\<rparr>"

definition cookie_request :: httpRequest where
  "cookie_request = (request_of ''GET'' [] ANil)\<lparr>useCookie := Some True\<rparr>"

definition expired_cookie :: cookie where
  "expired_cookie =
     \<lparr>Name = ''old'', Value = ''2'', cookie_Path = [], Domain = ''example.com'', Expires = 5\<rparr>"

definition admin_cookie :: cookie where
  "admin_cookie =
     \<lparr>Name = ''adm'', Value = ''3'', cookie_Path = ''/admin'', Domain = ''example.com'',
      Expires = 0\<rparr>"

definition users_cookie :: cookie where
  "users_cookie =
     \<lparr>Name = ''usr'', Value = ''4'', cookie_Path = ''/users'', Domain = ''example.com'',
      Expires = 2000\<rparr>"

definition example_jar :: jar where
  "example_jar =
     [(''example.com:443'',
         [(''old'', expired_cookie), (''adm'', admin_cookie), (''usr'', users_cookie)]),
      (''other.org'', [(''sid'', session_cookie)])]"

text \<open>
  A runner with a handler that answers every request with the given status, content type
  and body, and a validator that accepts everything; a state without files; the first
  three events of its run.
\<close>

definition handler_runner :: "int \<Rightarrow> string \<Rightarrow> string \<Rightarrow> files httpRunner" where
  "handler_runner st ct b =
     \<lparr>name = ''req'', endpoint = None, client = None,
      handler = Some (\<lambda>req w. (plain_response st ct b, w)),
      operator = \<lparr>op_root = [], op_store = \<lparr>cookies = []\<rparr>\<rparr>,
      validator = \<lparr>ValidateRequest = (\<lambda>req. None), ValidateResponse = (\<lambda>req res. None)\<rparr>,
      rnr_multipartBoundary = [], cacert = [], cert = [], key = [], skipVerify = False,
      rnr_useCookie = None\<rparr>"

definition no_files :: "files pstate" where
  "no_files = \<lparr>globalCacheDir = [], world = []\<rparr>"

definition events_of :: "int \<Rightarrow> string \<Rightarrow> string \<Rightarrow> event list" where
  "events_of st ct b =
     [CaptureHTTPRequest ''req'' (plain_request ''GET'' ''/users'' None),
      BackendCall (plain_request ''GET'' ''/users'' None),
      CaptureHTTPResponse ''req'' (plain_response st ct b)]"

text \<open>
  The same runner with a validator that rejects every response of status 500 or more,
  as a validator against an API description does for a status the description lacks.
\<close>

definition strict_runner :: "files httpRunner" where
  "strict_runner =
     (handler_runner 500 [] ''failed'')
       \<lparr>validator :=
          \<lparr>ValidateRequest = (\<lambda>req. None),
           ValidateResponse = (\<lambda>req res. if StatusCode res \<ge> 500
                                           then Some (External ''undocumented status'')
                                           else None)\<rparr>\<rparr>"

text \<open>
  A runner with a client for the endpoint \<open>https://example.com\<close>; the same runner with
  CA certificates that hold no certificate; the same runner with a validator that rejects
  every request; a world in which the network refuses every connection of a client; and
  the request that these runners build for \<open>GET /users\<close>.
\<close>

definition client_runner :: "files httpRunner" where
  "client_runner =
     \<lparr>name = ''req'',
      endpoint = Some \<lparr>Scheme = ''https'', Host = ''example.com'', Path = [], RawQuery = []\<rparr>,
      client = Some \<lparr>Transport = None\<rparr>, handler = None,
      operator = \<lparr>op_root = [], op_store = \<lparr>cookies = []\<rparr>\<rparr>,
      validator = \<lparr>ValidateRequest = (\<lambda>req. None), ValidateResponse = (\<lambda>req res. None)\<rparr>,
      rnr_multipartBoundary = [], cacert = [], cert = [], key = [], skipVerify = False,
      rnr_useCookie = None\<rparr>"

definition cacert_runner :: "files httpRunner" where
  "cacert_runner = client_runner\<lparr>cacert := ''no certificate''\<rparr>"


definition offline_env :: "(files, unit) http_env" where
  "offline_env =
     small_env\<lparr>client_Do := (\<lambda>rnr req w. (Inl (External ''connection refused''), w))\<rparr>"

definition client_request :: http_request where
  "client_request =
     \<lparr>req_Method = ''GET'',
      req_URL = \<lparr>Scheme = ''https'', Host = ''example.com'', Path = ''/users'', RawQuery = []\<rparr>,
      req_Host = ''example.com'', req_Header = [], req_Body = None\<rparr>"



text \<open>
  A stub for the loop: the runner's state counts the invocations and each invocation
  returns the count as its Outcome.
\<close>

definition counting_stub :: "(nat, nat, unit) loop_env" where
  "counting_stub =
     \<lparr>invoke = (\<lambda>r. (Inr r, Suc r)),
      evaluate = (\<lambda>e out i. Inr (out = 6)),
      delay = (\<lambda>d r. (None, r))\<rparr>"

text \<open>
  Two more stubs: the invocation fails when the runner has already been invoked once, so
  that the second invocation of a loop fails; and the invocation fails from the sixth
  on. A loop of three iterations without interval and without until expression.
\<close>

definition failing_stub :: "(nat, nat, unit) loop_env" where
  "failing_stub =
     \<lparr>invoke = (\<lambda>r. (if r = 1 then Inl (External ''connection refused'') else Inr r, Suc r)),
      evaluate = (\<lambda>e out i. Inr (out = 6)),
      delay = (\<lambda>d r. (None, r))\<rparr>"

definition late_failing_stub :: "(nat, nat, unit) loop_env" where
  "late_failing_stub =
     \<lparr>invoke = (\<lambda>r. (if r \<ge> 5 then Inl (External ''connection refused'') else Inr r, Suc r)),
      evaluate = (\<lambda>e out i. Inr (out = 6)),
      delay = (\<lambda>d r. (None, r))\<rparr>"

definition three_times :: "unit LoopSpec" where
  "three_times = \<lparr>loop_count = 3, loop_interval = 0, loop_until = None\<rparr>"

section \<open>Properties of path.go\<close>

lemma unique_loop_append:
  "unique_loop (xs @ ys) u m = unique_loop ys (unique_loop xs u m) (m \<union> set xs)"
proof (induction xs arbitrary: u m)
  case Nil
  then show ?case by simp
next
  case (Cons s rest)
  show ?case
  proof (cases "s \<in> m")
    case True
    then have "insert s (m \<union> set rest) = m \<union> set rest" by auto
    with True Cons show ?thesis by simp
  next
    case False
    with Cons show ?thesis by simp
  qed
qed

lemma unique_Nil: "unique [] = []"
  by (simp add: unique_def)

lemma unique_snoc:
  "unique (xs @ [x]) = (if x \<in> set xs then unique xs else unique xs @ [x])"
  by (simp add: unique_def unique_loop_append)

lemma set_unique: "set (unique xs) = set xs"
  by (induction xs rule: rev_induct) (auto simp: unique_snoc unique_Nil)

lemma distinct_unique: "distinct (unique xs)"
  by (induction xs rule: rev_induct) (auto simp: unique_snoc unique_Nil set_unique)

lemma first_index_less: "first_index xs a < length xs \<longleftrightarrow> a \<in> set xs"
  by (induction xs) auto

lemma first_index_append:
  "first_index (xs @ ys) a =
     (if a \<in> set xs then first_index xs a else length xs + first_index ys a)"
  by (induction xs) auto

lemma unique_order:
  "x \<in> set xs \<Longrightarrow> y \<in> set xs \<Longrightarrow>
     first_index (unique xs) x < first_index (unique xs) y
       \<longleftrightarrow> first_index xs x < first_index xs y"
proof (induction xs rule: rev_induct)
  case Nil
  then show ?case by simp
next
  case (snoc a xs)
  show ?case
  proof (cases "a \<in> set xs")
    case True
    with snoc show ?thesis
      by (auto simp: unique_snoc first_index_append)
  next
    case False
    have u: "unique (xs @ [a]) = unique xs @ [a]"
      using False by (simp add: unique_snoc)
    have in1: "\<And>z. z \<in> set xs \<Longrightarrow> first_index (unique xs) z < length (unique xs)"
      by (simp add: first_index_less set_unique)
    have in2: "\<And>z. z \<in> set xs \<Longrightarrow> first_index xs z < length xs"
      by (simp add: first_index_less)
    consider "x \<in> set xs" "y \<in> set xs" | "x = a" "y \<in> set xs" | "x \<in> set xs" "y = a"
      | "x = a" "y = a"
      using snoc.prems by auto
    then show ?thesis
    proof cases
      case 1
      then show ?thesis
        using snoc.IH by (simp add: u first_index_append set_unique)
    next
      case 2
      then show ?thesis
        using False in1[of y] in2[of y] by (auto simp: u first_index_append set_unique)
    next
      case 3
      then show ?thesis
        using False in1[of x] in2[of x] by (auto simp: u first_index_append set_unique)
    next
      case 4
      then show ?thesis by simp
    qed
  qed
qed

lemma splitList_example:
  "splitList CHR '':'' ''b.yml:a.yml:c.yml:b.yml'' = [''b.yml'', ''a.yml'', ''c.yml'', ''b.yml'']"
  by code_simp

lemma fetchPaths_loop_example:
  "fetchPaths_loop small_env [''b.yml'', ''a.yml'', ''c.yml'', ''b.yml''] [] two_files
     = (Inr [''b.yml'', ''a.yml'', ''b.yml''], two_files)"
  by code_simp

lemma unique_example: "unique [''b.yml'', ''a.yml'', ''b.yml''] = [''b.yml'', ''a.yml'']"
  by (simp add: unique_def)

lemma fetchPaths_example:
  "fetchPaths small_env ''b.yml:a.yml:c.yml:b.yml'' two_files
     = (Inr [''b.yml'', ''a.yml''], two_files)"
  by code_simp

text \<open>
  C8. Whenever \<open>fetchPaths\<close> returns a list for a path-list string, the list has no
  duplicates: it is \<open>unique\<close> of the paths collected by the loop, has the same elements,
  and two paths stand in it in the order of their first occurrences among the collected
  paths.
\<close>

theorem fetchPaths_unique_in_order:
  assumes "fetchPaths E pathp s = (Inr ps, s')"
  shows "distinct ps \<and>
    (\<exists>paths. fetchPaths_loop E (splitList (PathListSeparator E) pathp) [] s = (Inr paths, s')
       \<and> ps = unique paths \<and> set ps = set paths
       \<and> (\<forall>x \<in> set paths. \<forall>y \<in> set paths.
            first_index ps x < first_index ps y
              \<longleftrightarrow> first_index paths x < first_index paths y))"
proof -
  from assms obtain paths where
    loop: "fetchPaths_loop E (splitList (PathListSeparator E) pathp) [] s = (Inr paths, s')"
    and ps: "ps = unique paths"
    by (auto simp: fetchPaths_def split: prod.splits sum.splits)
  show ?thesis
    using loop ps by (auto simp: distinct_unique set_unique unique_order)
qed

theorem fetchPaths_unique_in_order_witness:
  "fetchPaths small_env ''b.yml:a.yml:c.yml:b.yml'' two_files
     = (Inr [''b.yml'', ''a.yml''], two_files)
   \<and> distinct [''b.yml'', ''a.yml'']
   \<and> fetchPaths_loop small_env (splitList CHR '':'' ''b.yml:a.yml:c.yml:b.yml'') [] two_files
        = (Inr [''b.yml'', ''a.yml'', ''b.yml''], two_files)
   \<and> first_index [''b.yml'', ''a.yml''] ''b.yml'' < first_index [''b.yml'', ''a.yml''] ''a.yml''"
  using fetchPaths_unique_in_order [OF fetchPaths_example]
  by (simp add: splitList_example fetchPaths_loop_example fetchPaths_example unique_example
      del: fetchPaths_loop.simps)

text \<open>
  C9. \<open>fetchPath\<close> returns the error of \<open>fetchPaths\<close> when there is one, the error
  \<open>path not found\<close> when \<open>fetchPaths\<close> yields no path, the error \<open>multiple paths found\<close>
  when it yields more than one, and otherwise the single path that \<open>fetchPaths\<close> yields:
  it returns an error exactly in the first three cases.
\<close>

theorem fetchPath_result:
  "fetchPath E p s =
     (case fetchPaths E p s of
        (Inl err, s') \<Rightarrow> (Inl err, s')
      | (Inr [], s') \<Rightarrow> (Inl PathNotFound, s')
      | (Inr [x], s') \<Rightarrow> (Inr x, s')
      | (Inr (x # y # zs), s') \<Rightarrow> (Inl MultiplePathsFound, s'))
   \<and> ((\<exists>err. fst (fetchPath E p s) = Inl err)
        = ((\<exists>err. fst (fetchPaths E p s) = Inl err)
           \<or> fst (fetchPaths E p s) = Inr []
           \<or> (\<exists>ps. fst (fetchPaths E p s) = Inr ps \<and> length ps > 1)))"
  by (auto simp: fetchPath_def split: prod.splits sum.splits list.splits)

section \<open>Properties of http.go\<close>

text \<open>
  C10. \<open>validate\<close> returns an error when the method is POST or PATCH and the media type
  is empty or the body is \<open>nil\<close>. Past that check, a media type \<open>multipart/form-data\<close>,
  alone or followed by a boundary parameter, is accepted without a further check; any
  other request is refused exactly when its media type is none of
  \<open>application/json\<close>, \<open>text/plain\<close>, \<open>application/x-www-form-urlencoded\<close> and the
  empty string.
\<close>

theorem validate_cases:
  "((httpMethod r = ''POST'' \<or> httpMethod r = ''PATCH'') \<and> (mediaType r = [] \<or> body r = ANil)
      \<longrightarrow> validate r \<noteq> None)
   \<and> (\<not> ((httpMethod r = ''POST'' \<or> httpMethod r = ''PATCH'') \<and> (mediaType r = [] \<or> body r = ANil))
      \<longrightarrow> (mediaType r = ''multipart/form-data''
           \<or> HasPrefix (mediaType r) ''multipart/form-data; boundary='')
      \<longrightarrow> validate r = None)
   \<and> (\<not> ((httpMethod r = ''POST'' \<or> httpMethod r = ''PATCH'') \<and> (mediaType r = [] \<or> body r = ANil))
      \<longrightarrow> \<not> (mediaType r = ''multipart/form-data''
           \<or> HasPrefix (mediaType r) ''multipart/form-data; boundary='')
      \<longrightarrow> (validate r \<noteq> None \<longleftrightarrow>
            mediaType r \<notin> {''application/json'', ''text/plain'',
                            ''application/x-www-form-urlencoded'', []}))"
  by (auto simp: validate_def isMultipartFormDataMediaType_def MethodPost_def MethodPatch_def
      MediaTypeMultipartFormData_def MediaTypeApplicationJSON_def MediaTypeTextPlain_def
      MediaTypeApplicationFormUrlencoded_def split: if_splits)

theorem validate_cases_witness:
  "validate (request_of ''POST'' ''application/json'' ANil) \<noteq> None
   \<and> validate (request_of ''PATCH'' [] (AString ''x'')) \<noteq> None
   \<and> validate (request_of ''POST'' ''multipart/form-data; boundary=b'' (AMap [])) = None
   \<and> validate (request_of ''GET'' ''multipart/form-data'' ANil) = None
   \<and> validate (request_of ''GET'' ''application/xml'' ANil) \<noteq> None
   \<and> validate (request_of ''POST'' ''text/plain'' (AString ''x'')) = None"
  using validate_cases [of "request_of ''POST'' ''application/json'' ANil"]
    validate_cases [of "request_of ''PATCH'' [] (AString ''x'')"]
    validate_cases [of "request_of ''POST'' ''multipart/form-data; boundary=b'' (AMap [])"]
    validate_cases [of "request_of ''GET'' ''multipart/form-data'' ANil"]
    validate_cases [of "request_of ''GET'' ''application/xml'' ANil"]
    validate_cases [of "request_of ''POST'' ''text/plain'' (AString ''x'')"]
  by (simp add: request_of_def HasPrefix_def)

section \<open>Properties of readFile\<close>

text \<open>
  C4, as stated, fails: \<open>readFile\<close> reads the package variable \<open>globalCacheDir\<close>.
  The path \<open>/cache/https/example.com/a.yml\<close> does not exist; under \<open>/cache\<close> it is the
  cache path of the URL \<open>https://example.com/a.yml\<close>. When the variable is empty the call
  returns the error of \<open>os.Stat\<close> and no bytes; when the variable is \<open>/cache\<close> it
  fetches the URL, writes the file and returns the bytes with no error.
\<close>

theorem readFile_depends_on_globalCacheDir:
  "readFile small_env [] ''/cache/https/example.com/a.yml'' []
     = (Inl (External ''no such file''), [])
   \<and> readFile small_env ''/cache'' ''/cache/https/example.com/a.yml'' []
       = (Inr ''remote'', [(''/cache/https/example.com/a.yml'', ''remote'')])"
  by code_simp

text \<open>
  C4, amended. The result of \<open>readFile\<close>, bytes or error, and the world it leaves are
  the same for two values of \<open>globalCacheDir\<close> when the path exists (\<open>os.Stat\<close>
  succeeds), and when each of the two values is empty or no prefix of the path.
\<close>

theorem readFile_independent_when_local:
  "(os_Stat E p w = None \<longrightarrow> readFile E g1 p w = readFile E g2 p w)
   \<and> ((g1 = [] \<or> \<not> HasPrefix p g1) \<and> (g2 = [] \<or> \<not> HasPrefix p g2)
        \<longrightarrow> readFile E g1 p w = readFile E g2 p w)"
  by (auto simp: readFile_def split: option.splits)

theorem readFile_independent_when_local_witness:
  "os_Stat small_env ''a.yml'' (world two_files) = None
   \<and> readFile small_env [] ''a.yml'' (world two_files)
       = readFile small_env ''/cache'' ''a.yml'' (world two_files)
   \<and> \<not> HasPrefix ''c.yml'' ''/cache''
   \<and> readFile small_env [] ''c.yml'' (world two_files)
       = readFile small_env ''/cache'' ''c.yml'' (world two_files)"
  using readFile_independent_when_local [of small_env "''a.yml''" "world two_files" "[]" "''/cache''"]
    readFile_independent_when_local [of small_env "''c.yml''" "world two_files" "[]" "''/cache''"]
  by (simp add: small_env_def two_files_def HasPrefix_def)

section \<open>Properties of setCookieHeader\<close>

lemma any_loopback_iff: "any_loopback ips \<longleftrightarrow> (\<exists>ip \<in> set ips. IsLoopback ip)"
  by (induction ips) auto

lemma isLocalhost_iff:
  "(case isLocalhost E domain w of (l, err) \<Rightarrow> \<not> (\<not> l \<or> err \<noteq> None))
     \<longleftrightarrow> (\<exists>ips. net_LookupIP E domain w = Inr ips \<and> (\<exists>ip \<in> set ips. IsLoopback ip))"
  by (auto simp: isLocalhost_def any_loopback_iff split: sum.splits)

lemma domainCookies_loop_set:
  "c \<in> set (domainCookies_loop E p w dcs) \<longleftrightarrow>
     (\<exists>n. (n, c) \<in> set dcs) \<and> (cookie_Path c = [] \<or> HasPrefix p (cookie_Path c))
       \<and> (Expires c = 0 \<or> Expires c > time_Now E w)"
  by (induction dcs) (auto split: if_splits)

lemma attachedCookies_Cons:
  "attachedCookies E domain p w ((host0, dcs) # rest) =
     (if (if Split host0 CHR '':'' ! 0 = ''localhost''
          then (\<exists>ips. net_LookupIP E domain w = Inr ips \<and> (\<exists>ip \<in> set ips. IsLoopback ip))
          else HasSuffix domain (Split host0 CHR '':'' ! 0))
      then domainCookies_loop E p w dcs else [])
     @ attachedCookies E domain p w rest"
proof (cases "Split host0 CHR '':'' ! 0 = ''localhost''")
  case True
  obtain l err where le: "isLocalhost E domain w = (l, err)"
    by (cases "isLocalhost E domain w")
  have iff: "(l \<and> err = None)
          = (\<exists>ips. net_LookupIP E domain w = Inr ips \<and> (\<exists>ip \<in> set ips. IsLoopback ip))"
    using isLocalhost_iff [of E domain w] by (simp add: le)
  show ?thesis
  proof (cases "l \<and> err = None")
    case yes: True
    with iff have "\<exists>ips. net_LookupIP E domain w = Inr ips \<and> (\<exists>ip \<in> set ips. IsLoopback ip)"
      by simp
    with yes True show ?thesis by (simp add: le Let_def)
  next
    case no: False
    with iff have "\<not> (\<exists>ips. net_LookupIP E domain w = Inr ips \<and> (\<exists>ip \<in> set ips. IsLoopback ip))"
      by simp
    with no True show ?thesis by (auto simp: le Let_def)
  qed
next
  case False
  then show ?thesis by (simp add: Let_def)
qed

lemma attachedCookies_append:
  "attachedCookies E domain p w (xs @ ys) =
     attachedCookies E domain p w xs @ attachedCookies E domain p w ys"
proof (induction xs)
  case Nil
  then show ?case by simp
next
  case (Cons e xs)
  obtain host0 dcs where e: "e = (host0, dcs)" by (cases e)
  show ?case
    unfolding e append_Cons attachedCookies_Cons using Cons by simp
qed

lemma attachedCookies_set:
  "c \<in> set (attachedCookies E domain p w cs) \<longleftrightarrow>
     (\<exists>host0 dcs n. (host0, dcs) \<in> set cs \<and> (n, c) \<in> set dcs
        \<and> (if Split host0 CHR '':'' ! 0 = ''localhost''
            then (\<exists>ips. net_LookupIP E domain w = Inr ips \<and> (\<exists>ip \<in> set ips. IsLoopback ip))
            else HasSuffix domain (Split host0 CHR '':'' ! 0))
        \<and> (cookie_Path c = [] \<or> HasPrefix p (cookie_Path c))
        \<and> (Expires c = 0 \<or> Expires c > time_Now E w))"
proof -
  define hok where "hok host0 \<longleftrightarrow>
      (if Split host0 CHR '':'' ! 0 = ''localhost''
       then (\<exists>ips. net_LookupIP E domain w = Inr ips \<and> (\<exists>ip \<in> set ips. IsLoopback ip))
       else HasSuffix domain (Split host0 CHR '':'' ! 0))" for host0
  define cok where "cok \<longleftrightarrow>
      (cookie_Path c = [] \<or> HasPrefix p (cookie_Path c))
        \<and> (Expires c = 0 \<or> Expires c > time_Now E w)"
  have step: "attachedCookies E domain p w ((host0, dcs) # rest) =
      (if hok host0 then domainCookies_loop E p w dcs else [])
        @ attachedCookies E domain p w rest" for host0 dcs rest
    unfolding hok_def by (rule attachedCookies_Cons)
  have inner: "c \<in> set (domainCookies_loop E p w dcs) \<longleftrightarrow> (\<exists>n. (n, c) \<in> set dcs) \<and> cok"
    for dcs
    unfolding cok_def by (rule domainCookies_loop_set)
  have "c \<in> set (attachedCookies E domain p w cs) \<longleftrightarrow>
      (\<exists>host0 dcs n. (host0, dcs) \<in> set cs \<and> (n, c) \<in> set dcs \<and> hok host0 \<and> cok)"
  proof (induction cs)
    case Nil
    then show ?case by simp
  next
    case (Cons e cs)
    obtain host0 dcs where e: "e = (host0, dcs)" by (cases e)
    show ?case
      unfolding e step set_append Un_iff Cons.IH
      by (auto simp: inner)
  qed
  then show ?thesis
    unfolding hok_def cok_def by simp
qed


text \<open>
  C2, as stated, fails for a jar host \<open>localhost\<close>: a request to \<open>127.0.0.1\<close> that
  opts in gets the cookie stored under \<open>localhost\<close>, which is no suffix of the request's
  host name.
\<close>

theorem localhost_cookie_not_suffix:
  "attachedCookies small_env (URL_Hostname small_env (req_URL local_request))
       (Path (req_URL local_request)) [] local_jar = [session_cookie]
   \<and> Header_Get small_env
         (req_Header (setCookieHeader small_env cookie_request local_request local_jar []))
         ''Cookie'' = ''sid=1''
   \<and> \<not> HasSuffix (URL_Hostname small_env (req_URL local_request))
           (Split ''localhost'' CHR '':'' ! 0)"
  by code_simp

text \<open>
  C2, amended. For a request that opts in, \<open>setCookieHeader\<close> adds to the request the
  cookies of \<open>attachedCookies\<close>, and has no error result. A cookie is among them exactly
  when the jar holds it under a host that matches, its path is empty or a prefix of the
  path of the request's URL, and its expiry is zero or after the current time. A jar host
  matches, with its port stripped, when it is a suffix of the request's host name, or,
  for \<open>localhost\<close>, when the lookup of the request's host name gives a loopback address.
\<close>

theorem setCookieHeader_attaches:
  assumes "useCookie r = Some True"
  shows "setCookieHeader E r req cs w =
      foldl (AddCookie E) req
        (attachedCookies E (URL_Hostname E (req_URL req)) (Path (req_URL req)) w cs)
    \<and> (c \<in> set (attachedCookies E (URL_Hostname E (req_URL req)) (Path (req_URL req)) w cs)
        \<longleftrightarrow>
        (\<exists>host0 dcs n. (host0, dcs) \<in> set cs \<and> (n, c) \<in> set dcs
           \<and> (if Split host0 CHR '':'' ! 0 = ''localhost''
               then (\<exists>ips. net_LookupIP E (URL_Hostname E (req_URL req)) w = Inr ips
                        \<and> (\<exists>ip \<in> set ips. IsLoopback ip))
               else HasSuffix (URL_Hostname E (req_URL req)) (Split host0 CHR '':'' ! 0))
           \<and> (cookie_Path c = [] \<or> HasPrefix (Path (req_URL req)) (cookie_Path c))
           \<and> (Expires c = 0 \<or> Expires c > time_Now E w)))"
  using assms by (simp add: setCookieHeader_def attachedCookies_set)

lemma example_attached:
  "attachedCookies small_env (URL_Hostname small_env (req_URL (plain_request ''GET'' ''/users'' None)))
       (Path (req_URL (plain_request ''GET'' ''/users'' None))) [] example_jar = [users_cookie]"
  by code_simp

lemma example_header:
  "Header_Get small_env
     (req_Header (setCookieHeader small_env cookie_request (plain_request ''GET'' ''/users'' None)
        example_jar [])) ''Cookie'' = ''usr=4''"
  by code_simp

lemma cookie_request_opts_in: "useCookie cookie_request = Some True"
  by (simp add: cookie_request_def)

theorem setCookieHeader_attaches_witness:
  "useCookie cookie_request = Some True
   \<and> setCookieHeader small_env cookie_request (plain_request ''GET'' ''/users'' None) example_jar []
       = foldl (AddCookie small_env) (plain_request ''GET'' ''/users'' None) [users_cookie]
   \<and> expired_cookie \<notin> set (attachedCookies small_env
         (URL_Hostname small_env (req_URL (plain_request ''GET'' ''/users'' None)))
         (Path (req_URL (plain_request ''GET'' ''/users'' None))) [] example_jar)
   \<and> admin_cookie \<notin> set (attachedCookies small_env
         (URL_Hostname small_env (req_URL (plain_request ''GET'' ''/users'' None)))
         (Path (req_URL (plain_request ''GET'' ''/users'' None))) [] example_jar)"
  using setCookieHeader_attaches [OF cookie_request_opts_in, of small_env
      "plain_request ''GET'' ''/users'' None" example_jar "[]" users_cookie]
  by (simp add: example_attached cookie_request_opts_in users_cookie_def expired_cookie_def
      admin_cookie_def)

text \<open>
  C3. An entry of the jar whose host, with the port stripped, is \<open>localhost\<close>
  contributes its cookies (those of matching path and expiry) only when the lookup of
  the request's host name returns at least one loopback address; when the lookup fails or
  has no loopback address the entry contributes nothing, whether or not \<open>localhost\<close> is
  a suffix of the host name.
\<close>

theorem localhost_cookie_needs_loopback:
  assumes "Split host0 CHR '':'' ! 0 = ''localhost''"
  shows "attachedCookies E domain p w (pre @ (host0, dcs) # post) =
      attachedCookies E domain p w pre
      @ (if (\<exists>ips. net_LookupIP E domain w = Inr ips \<and> (\<exists>ip \<in> set ips. IsLoopback ip))
         then domainCookies_loop E p w dcs else [])
      @ attachedCookies E domain p w post"
  using assms by (simp add: attachedCookies_append attachedCookies_Cons del: attachedCookies.simps(2))

lemma localhost_key: "Split ''localhost'' CHR '':'' ! 0 = ''localhost''"
  by code_simp

lemma lookup_app_localhost:
  "net_LookupIP small_env ''app.localhost'' [] = Inl (External ''no such host'')"
  by (simp add: small_env_def)

theorem localhost_cookie_needs_loopback_witness:
  "Split ''localhost'' CHR '':'' ! 0 = ''localhost''
   \<and> HasSuffix ''app.localhost'' ''localhost''
   \<and> net_LookupIP small_env ''app.localhost'' [] = Inl (External ''no such host'')
   \<and> attachedCookies small_env ''app.localhost'' ''/'' [] ([] @ (''localhost'', [(''sid'', session_cookie)]) # []) = []"
  using localhost_cookie_needs_loopback [OF localhost_key, of small_env "''app.localhost''" "''/''" "[]"
      "[]" "[(''sid'', session_cookie)]" "[]"]
  by (simp add: localhost_key lookup_app_localhost HasSuffix_def del: attachedCookies.simps(2))

section \<open>Properties of Run\<close>

lemma validateAndSend_cases:
  assumes "validateAndSend rnr req send s = (x, evs, s')"
  shows "(\<exists>e. ValidateRequest (validator rnr) req = Some e \<and> x = Inl (Return (Some e))
            \<and> evs = [CaptureHTTPRequest (name rnr) req] \<and> s' = s)
       \<or> (\<exists>e w'. ValidateRequest (validator rnr) req = None \<and> send req (world s) = (Inl e, w')
            \<and> x = Inl (Return (Some e))
            \<and> evs = [CaptureHTTPRequest (name rnr) req, BackendCall req] \<and> s' = s\<lparr>world := w'\<rparr>)
       \<or> (\<exists>res w'. ValidateRequest (validator rnr) req = None \<and> send req (world s) = (Inr res, w')
            \<and> x = Inr (req, res)
            \<and> evs = [CaptureHTTPRequest (name rnr) req, BackendCall req] \<and> s' = s\<lparr>world := w'\<rparr>)"
  using assms
  by (auto simp: validateAndSend_def validateThenSend_def split: option.splits prod.splits sum.splits)

lemma sendViaClient_cases:
  assumes "sendViaClient E rnr cl r reqBody s = out" and "client rnr = Some cl"
  shows "(\<exists>ret. out = (Inl ret, [], s)
            \<and> (ret = Return (Some e) \<longrightarrow>
                  configureTLS E rnr cl (world s) = Some (Some e)
                  \<or> mergeURL E (endpoint rnr) (path r) = Fail e
                  \<or> (\<exists>u. http_NewRequest E (httpMethod r) u reqBody = Inl e)))
       \<or> (\<exists>req. sent E rnr s out req)"
proof (cases "configureTLS E rnr cl (world s)")
  case (Some ret)
  then show ?thesis using assms by (auto simp: sendViaClient_def clientRequest_def)
next
  case None
  note tls = this
  show ?thesis
  proof (cases "mergeURL E (endpoint rnr) (path r)")
    case (Fail err)
    then show ?thesis using assms tls by (auto simp: sendViaClient_def clientRequest_def)
  next
    case (Panic m)
    then show ?thesis using assms tls by (auto simp: sendViaClient_def clientRequest_def)
  next
    case (Val u)
    note mu = this
    show ?thesis
    proof (cases "http_NewRequest E (httpMethod r) (URL_String E u) reqBody")
      case (Inl err)
      then show ?thesis using assms tls mu by (auto simp: sendViaClient_def clientRequest_def)
    next
      case (Inr req0)
      note nr = this
      show ?thesis
      proof (cases "setContentTypeHeader E r req0")
        case None
        then show ?thesis using assms tls mu nr by (auto simp: sendViaClient_def clientRequest_def)
      next
        case (Some req1)
        define r' where "r' = (if useCookie r = None \<and> rnr_useCookie rnr \<noteq> None
                                       \<and> the (rnr_useCookie rnr)
                                    then r\<lparr>useCookie := rnr_useCookie rnr\<rparr> else r)"
        define req3 where "req3 = setHeaders E True (headers r')
            (setCookieHeader E r' req1 (cookies (op_store (operator rnr))) (world s))"
        have out: "out = validateAndSend rnr req3 (client_Do E rnr) s"
          using assms tls mu nr Some
          by (simp add: sendViaClient_def clientRequest_def r'_def req3_def Let_def)
        obtain x evs s' where o: "out = (x, evs, s')" by (cases out)
        have b: "backend E rnr req3 (world s) = client_Do E rnr req3 (world s)"
          using assms(2) by (simp add: backend_def)
        have "sent E rnr s out req3"
          using validateAndSend_cases [of rnr req3 "client_Do E rnr" s x evs s'] out o b assms(2)
          by (auto simp: sent_def)
        then show ?thesis by blast
      qed
    qed
  qed
qed

lemma sendViaHandler_cases:
  assumes "sendViaHandler E rnr h r reqBody s = out"
    and "client rnr = None" and "handler rnr = Some h"
  shows "(\<exists>m. out = (Inl (Panicked m), [], s)) \<or> (\<exists>req. sent E rnr s out req)"
proof (cases "httptest_NewRequest E (httpMethod r) (path r) reqBody")
  case None
  then show ?thesis using assms by (auto simp: sendViaHandler_def handlerRequest_def)
next
  case (Some req0)
  define req2 where "req2 = setHeaders E False (headers r)
      (if mediaType r \<noteq> []
       then req0\<lparr>req_Header := Header_Set E (req_Header req0) ''Content-Type'' (mediaType r)\<rparr>
       else req0)"
  define send where "send = (\<lambda>req w. case h req w of (res, w') \<Rightarrow> (Inr res :: error + http_response, w'))"
  have out: "out = validateAndSend rnr req2 send s"
    using assms Some by (simp add: sendViaHandler_def handlerRequest_def req2_def send_def Let_def)
  obtain x evs s' where o: "out = (x, evs, s')" by (cases out)
  have b: "backend E rnr req2 (world s) = send req2 (world s)"
    using assms(2,3) by (simp add: backend_def send_def)
  have nofail: "\<And>e w'. send req2 (world s) \<noteq> (Inl e, w')"
    by (auto simp: send_def split: prod.splits)
  have "sent E rnr s out req2"
    using validateAndSend_cases [of rnr req2 send s x evs s'] out o b nofail
    by (auto simp: sent_def)
  then show ?thesis by blast
qed

lemma handleResponse_cases:
  assumes "handleResponse E rnr req res = (ret, evs)"
  shows "(\<exists>e. ret = Return (Some e) \<and> evs = [CaptureHTTPResponse (name rnr) res]
            \<and> ValidateResponse (validator rnr) req res = Some e \<and> \<not> As_UnsupportedError e)
       \<or> (\<exists>e dbg. ret = Return (Some e) \<and> evs = CaptureHTTPResponse (name rnr) res # dbg
            \<and> list_all is_note dbg \<and> accepted rnr req res \<and> res_Body res = Inl e)
       \<or> (\<exists>e dbg b. ret = Return (Some e) \<and> evs = CaptureHTTPResponse (name rnr) res # dbg
            \<and> list_all is_note dbg \<and> accepted rnr req res \<and> res_Body res = Inr b
            \<and> decodeBody E res b = Inl e)
       \<or> (\<exists>notes b v d. ret = Return None
            \<and> evs = CaptureHTTPResponse (name rnr) res # notes @ [Record d]
            \<and> list_all is_note notes \<and> accepted rnr req res \<and> res_Body res = Inr b
            \<and> decodeBody E res b = Inr v
            \<and> res_status d = StatusCode res \<and> res_body d = v \<and> res_rawBody d = b
            \<and> res_headers d = res_Header res)"
proof (cases "ValidateResponse (validator rnr) req res")
  case None
  then have acc: "accepted rnr req res" by (simp add: accepted_def)
  show ?thesis
  proof (cases "res_Body res")
    case (Inl e)
    then show ?thesis using assms None acc by (auto simp: handleResponse_def processResponse_def)
  next
    case (Inr b)
    show ?thesis
    proof (cases "decodeBody E res b")
      case (Inl e)
      then show ?thesis using assms None acc Inr by (auto simp: handleResponse_def processResponse_def)
    next
      case inr: (Inr v)
      then show ?thesis using assms None acc Inr
        by (auto simp: handleResponse_def processResponse_def Let_def)
    qed
  qed
next
  case (Some err)
  show ?thesis
  proof (cases "As_UnsupportedError err")
    case False
    then show ?thesis using assms Some by (auto simp: handleResponse_def processResponse_def)
  next
    case True
    then have acc: "accepted rnr req res" using Some by (simp add: accepted_def)
    show ?thesis
    proof (cases "res_Body res")
      case (Inl e)
      then show ?thesis using assms Some True acc by (auto simp: handleResponse_def processResponse_def)
    next
      case (Inr b)
      show ?thesis
      proof (cases "decodeBody E res b")
        case (Inl e)
        then show ?thesis using assms Some True acc Inr by (auto simp: handleResponse_def processResponse_def)
      next
        case inr: (Inr v)
        then show ?thesis using assms Some True acc Inr
          by (auto simp: handleResponse_def processResponse_def Let_def)
      qed
    qed
  qed
qed

lemma encodeBody_keeps:
  assumes "encodeBody E r s = (x, r', s1)"
  shows "path r' = path r \<and> httpMethod r' = httpMethod r"
  using assms
  by (auto simp: encodeBody_def split: if_splits prod.splits sum.splits any.splits)

lemma sendRequest_cases:
  assumes "sendRequest E rnr r reqBody s = out"
  shows "(\<exists>ret. out = (Inl ret, [], s)
            \<and> (\<forall>e. ret = Return (Some e) \<longrightarrow>
                  (\<exists>cl. client rnr = Some cl \<and> configureTLS E rnr cl (world s) = Some (Some e))
                  \<or> mergeURL E (endpoint rnr) (path r) = Fail e
                  \<or> (\<exists>u. http_NewRequest E (httpMethod r) u reqBody = Inl e)
                  \<or> (client rnr = None \<and> handler rnr = None \<and> e = InvalidHTTPRunner (name rnr))))
       \<or> (\<exists>req. sent E rnr s out req)"
proof (cases "client rnr")
  case (Some cl)
  then have "sendViaClient E rnr cl r reqBody s = out"
    using assms by (simp add: sendRequest_def)
  from sendViaClient_cases [OF this Some] Some show ?thesis by blast
next
  case None
  show ?thesis
  proof (cases "handler rnr")
    case none: None
    then show ?thesis using assms None by (auto simp: sendRequest_def)
  next
    case (Some h)
    then have "sendViaHandler E rnr h r reqBody s = out"
      using assms None by (simp add: sendRequest_def)
    from sendViaHandler_cases [OF this None Some] show ?thesis by blast
  qed
qed

lemma Run_cases:
  assumes "Run E rnr r s = (ret, evs, s')"
  shows "(evs = [] \<and> (\<forall>e. ret = Return (Some e) \<longrightarrow> request_construction_failure E rnr r s e))
   \<or> (\<exists>req e. evs = [CaptureHTTPRequest (name rnr) req]
         \<and> ValidateRequest (validator rnr) req = Some e \<and> ret = Return (Some e))
   \<or> (\<exists>req e w w'. evs = [CaptureHTTPRequest (name rnr) req, BackendCall req]
         \<and> ValidateRequest (validator rnr) req = None
         \<and> client_Do E rnr req w = (Inl e, w') \<and> backend E rnr req w = (Inl e, w')
         \<and> ret = Return (Some e))
   \<or> (\<exists>req res rest w w'. evs = CaptureHTTPRequest (name rnr) req # BackendCall req # rest
         \<and> ValidateRequest (validator rnr) req = None
         \<and> backend E rnr req w = (Inr res, w')
         \<and> handleResponse E rnr req res = (ret, rest))"
proof -
  define r1 where "r1 = r\<lparr>multipartBoundary := rnr_multipartBoundary rnr,
                           root := op_root (operator rnr)\<rparr>"
  obtain x r2 s1 where enc: "encodeBody E r1 s = (x, r2, s1)"
    by (cases "encodeBody E r1 s") auto
  have keep: "path r2 = path r" "httpMethod r2 = httpMethod r"
    using encodeBody_keeps [OF enc] by (simp_all add: r1_def)
  show ?thesis
  proof (cases x)
    case (Inl err)
    then have "ret = Return (Some err)" "evs = []"
      using assms enc by (simp_all add: Run_def r1_def [symmetric] Let_def)
    moreover have "request_construction_failure E rnr r s err"
      using enc Inl by (auto simp: request_construction_failure_def r1_def)
    ultimately show ?thesis by simp
  next
    case (Inr reqBody)
    obtain y evs1 s2 where snd: "sendRequest E rnr r2 reqBody s1 = (y, evs1, s2)"
      by (cases "sendRequest E rnr r2 reqBody s1") auto
    from sendRequest_cases [OF snd]
    consider (pre) ret' where "(y, evs1, s2) = (Inl ret', [], s1)"
        "\<forall>e. ret' = Return (Some e) \<longrightarrow>
            (\<exists>cl. client rnr = Some cl \<and> configureTLS E rnr cl (world s1) = Some (Some e))
            \<or> mergeURL E (endpoint rnr) (path r2) = Fail e
            \<or> (\<exists>u. http_NewRequest E (httpMethod r2) u reqBody = Inl e)
            \<or> (client rnr = None \<and> handler rnr = None \<and> e = InvalidHTTPRunner (name rnr))"
      | (sent) req where "sent E rnr s1 (y, evs1, s2) req"
      by blast
    then show ?thesis
    proof cases
      case pre
      then have "ret = ret'" "evs = []"
        using assms enc Inr snd by (simp_all add: Run_def r1_def [symmetric] Let_def)
      moreover have "\<forall>e. ret' = Return (Some e) \<longrightarrow> request_construction_failure E rnr r s e"
        using pre(2) keep unfolding request_construction_failure_def by metis
      ultimately show ?thesis by simp
    next
      case sent
      then consider
        (rejected) e where "ValidateRequest (validator rnr) req = Some e" "y = Inl (Return (Some e))"
          "evs1 = [CaptureHTTPRequest (name rnr) req]"
        | (failed) e w' where "ValidateRequest (validator rnr) req = None"
          "backend E rnr req (world s1) = (Inl e, w')" "client rnr \<noteq> None"
          "y = Inl (Return (Some e))"
          "evs1 = [CaptureHTTPRequest (name rnr) req, BackendCall req]"
        | (answered) res w' where "ValidateRequest (validator rnr) req = None"
          "backend E rnr req (world s1) = (Inr res, w')" "y = Inr (req, res)"
          "evs1 = [CaptureHTTPRequest (name rnr) req, BackendCall req]"
        unfolding sent_def by auto
      then show ?thesis
      proof cases
        case rejected
        then have "ret = Return (Some e)" "evs = [CaptureHTTPRequest (name rnr) req]"
          using assms enc Inr snd by (simp_all add: Run_def r1_def [symmetric] Let_def)
        with rejected(1) show ?thesis by blast
      next
        case failed
        then have re: "ret = Return (Some e)"
          "evs = [CaptureHTTPRequest (name rnr) req, BackendCall req]"
          using assms enc Inr snd by (simp_all add: Run_def r1_def [symmetric] Let_def)
        have "client_Do E rnr req (world s1) = (Inl e, w')"
          using failed(2,3) by (auto simp: backend_def)
        with re failed(1,2) show ?thesis by blast
      next
        case answered
        obtain ret2 evs2 where hr: "handleResponse E rnr req res = (ret2, evs2)"
          by (cases "handleResponse E rnr req res")
        have "ret = ret2" "evs = evs1 @ evs2"
          using assms enc Inr snd answered(3) hr
          by (simp_all add: Run_def r1_def [symmetric] Let_def)
        then have "evs = CaptureHTTPRequest (name rnr) req # BackendCall req # evs2
            \<and> ValidateRequest (validator rnr) req = None
            \<and> backend E rnr req (world s1) = (Inr res, w')
            \<and> handleResponse E rnr req res = (ret, evs2)"
          using answered hr by simp
        then show ?thesis by blast
      qed
    qed
  qed
qed

lemma Run_answered:
  assumes "Run E rnr r s = (ret, evs, s')"
    and "CaptureHTTPResponse nm res \<in> set evs"
  shows "\<exists>req res0 rest. evs = CaptureHTTPRequest (name rnr) req # BackendCall req # rest
      \<and> handleResponse E rnr req res0 = (ret, rest)"
proof -
  from Run_cases [OF assms(1)]
  consider (pre) "evs = []"
    | (rejected) req where "evs = [CaptureHTTPRequest (name rnr) req]"
    | (failed) req where "evs = [CaptureHTTPRequest (name rnr) req, BackendCall req]"
    | (answered) req res0 rest where
      "evs = CaptureHTTPRequest (name rnr) req # BackendCall req # rest"
      "handleResponse E rnr req res0 = (ret, rest)"
    by blast
  then show ?thesis
  proof cases
    case pre
    then show ?thesis using assms(2) by simp
  next
    case rejected
    then show ?thesis using assms(2) by simp
  next
    case failed
    then show ?thesis using assms(2) by simp
  next
    case answered
    then show ?thesis by blast
  qed
qed

lemma note_not_capture:
  assumes "list_all is_note ns"
  shows "CaptureHTTPResponse nm res \<notin> set ns" and "Record d \<notin> set ns"
    and "BackendCall req \<notin> set ns" and "CaptureHTTPRequest nm req \<notin> set ns"
  using assms by (auto simp: list_all_iff)


lemma run_500:
  "Run small_env (handler_runner 500 ''text/plain'' ''failed'') (request_of ''GET'' [] ANil) no_files
    = (Return None,
       events_of 500 ''text/plain'' ''failed''
       @ [Record \<lparr>res_status = 500, res_body = ANil, res_rawBody = ''failed'',
                  res_headers = [(''Content-Type'', [''text/plain''])], res_cookies = []\<rparr>],
       no_files)"
  by code_simp

lemma run_json:
  "Run small_env (handler_runner 200 ''application/json'' ''{}'') (request_of ''GET'' [] ANil) no_files
    = (Return None,
       events_of 200 ''application/json'' ''{}''
       @ [Record \<lparr>res_status = 200, res_body = AMap [], res_rawBody = ''{}'',
                  res_headers = [(''Content-Type'', [''application/json''])], res_cookies = []\<rparr>],
       no_files)"
  by code_simp

lemma run_malformed:
  "Run small_env (handler_runner 200 ''application/json'' ''{'') (request_of ''GET'' [] ANil) no_files
    = (Return (Some (External ''invalid character'')),
       events_of 200 ''application/json'' ''{'', no_files)"
  by code_simp

lemma name_handler_runner: "name (handler_runner st ct b) = ''req''"
  by (simp add: handler_runner_def)

lemma accepted_handler_runner: "accepted (handler_runner st ct b) req res"
  by (simp add: accepted_def handler_runner_def)

lemma decode_plain_body: "decodeBody small_env (plain_response 500 ''text/plain'' ''failed'') ''failed'' = Inr ANil"
  by code_simp

lemma malformed_json:
  "Contains (Header_Get small_env (res_Header (plain_response 200 ''application/json'' ''{''))
      ''Content-Type'') ''json''
   \<and> json_Unmarshal small_env ''{'' = Inl (External ''invalid character'')"
  by code_simp

lemma run_strict:
  "Run small_env strict_runner (request_of ''GET'' [] ANil) no_files
    = (Return (Some (External ''undocumented status'')), events_of 500 [] ''failed'', no_files)"
  by code_simp

lemma small_env_never_fails:
  "client_Do small_env rnr req w = (Inr (plain_response 200 [] ''remote''), w)"
  "http_NewRequest small_env m u b = Inr (new_request m u b)"
  "CanonicalMIMEHeaderKey small_env k = k"
  by (simp_all add: small_env_def)

lemma strict_no_transport_failure:
  "\<not> transport_failure small_env strict_runner (events_of 500 [] ''failed'')
       (External ''undocumented status'')"
  by (auto simp: transport_failure_def events_of_def small_env_never_fails plain_response_def
      Header_Get_def)

lemma strict_no_construction_failure:
  "\<not> request_construction_failure small_env strict_runner (request_of ''GET'' [] ANil) no_files
       (External ''undocumented status'')"
  by (auto simp: request_construction_failure_def encodeBody_def request_of_def
      strict_runner_def handler_runner_def mergeURL_def HasPrefix_def small_env_never_fails)

lemma strict_no_request_validation_failure:
  "\<not> request_validation_failure strict_runner (events_of 500 [] ''failed'')
       (External ''undocumented status'')"
  by (simp add: request_validation_failure_def strict_runner_def handler_runner_def)

text \<open>
  C1, as stated, fails when the runner's validator rejects the response. The handler
  answers with status 500 and a readable body that is not JSON, so the backend call is
  completed and nothing fails in the transport; the request was built and passed its
  validation. The validator rejects the response, and \<open>Run\<close> returns its error and
  records no Outcome.
\<close>

theorem Run_error_on_rejected_response:
  "Run small_env strict_runner (request_of ''GET'' [] ANil) no_files
     = (Return (Some (External ''undocumented status'')), events_of 500 [] ''failed'', no_files)
   \<and> BackendCall (plain_request ''GET'' ''/users'' None) \<in> set (events_of 500 [] ''failed'')
   \<and> CaptureHTTPResponse ''req'' (plain_response 500 [] ''failed'') \<in> set (events_of 500 [] ''failed'')
   \<and> StatusCode (plain_response 500 [] ''failed'') = 500
   \<and> res_Body (plain_response 500 [] ''failed'') = Inr ''failed''
   \<and> \<not> transport_failure small_env strict_runner (events_of 500 [] ''failed'')
         (External ''undocumented status'')
   \<and> \<not> request_construction_failure small_env strict_runner (request_of ''GET'' [] ANil)
         no_files (External ''undocumented status'')
   \<and> \<not> request_validation_failure strict_runner (events_of 500 [] ''failed'')
         (External ''undocumented status'')"
  using run_strict strict_no_transport_failure strict_no_construction_failure
    strict_no_request_validation_failure
  by (simp add: events_of_def plain_response_def)

text \<open>
  C1, amended. When \<open>Run\<close> returns an error, no Outcome has been recorded, and the
  error is that of a transport-level failure, of a request construction failure, of a
  request validation failure, or of a response validation failure. When the backend call
  was made and gave a response, which the validator lets pass, whose body can be read
  and, where it is announced as JSON, parsed, \<open>Run\<close> returns no error and records an
  Outcome with the status of the response, whatever that status is.
\<close>

theorem Run_outcome_or_error:
  assumes "Run E rnr r s = (ret, evs, s')"
  shows "(\<forall>e. ret = Return (Some e) \<longrightarrow>
            (\<forall>d. Record d \<notin> set evs)
            \<and> (transport_failure E rnr evs e \<or> request_construction_failure E rnr r s e
                \<or> request_validation_failure rnr evs e
                \<or> response_validation_failure rnr evs e))
       \<and> (\<forall>req res b v. BackendCall req \<in> set evs \<and> CaptureHTTPResponse (name rnr) res \<in> set evs
             \<and> accepted rnr req res \<and> res_Body res = Inr b \<and> decodeBody E res b = Inr v
             \<longrightarrow> ret = Return None \<and> (\<exists>d. Record d \<in> set evs \<and> res_status d = StatusCode res))"
proof -
  from Run_cases [OF assms]
  consider (pre) "evs = []"
      "\<forall>e. ret = Return (Some e) \<longrightarrow> request_construction_failure E rnr r s e"
    | (rejected) req e where "evs = [CaptureHTTPRequest (name rnr) req]"
      "ValidateRequest (validator rnr) req = Some e" "ret = Return (Some e)"
    | (failed) req e w w' where "evs = [CaptureHTTPRequest (name rnr) req, BackendCall req]"
      "client_Do E rnr req w = (Inl e, w')" "ret = Return (Some e)"
    | (answered) req res rest where
      "evs = CaptureHTTPRequest (name rnr) req # BackendCall req # rest"
      "handleResponse E rnr req res = (ret, rest)"
    by blast
  then show ?thesis
  proof cases
    case pre
    then show ?thesis by simp
  next
    case rejected
    then show ?thesis by (auto simp: request_validation_failure_def)
  next
    case failed
    then show ?thesis by (auto simp: transport_failure_def)
  next
    case answered
    from handleResponse_cases [OF answered(2)]
    consider (invalid) e where "ret = Return (Some e)" "rest = [CaptureHTTPResponse (name rnr) res]"
        "ValidateResponse (validator rnr) req res = Some e" "\<not> As_UnsupportedError e"
      | (unread) e dbg where "ret = Return (Some e)" "rest = CaptureHTTPResponse (name rnr) res # dbg"
        "list_all is_note dbg" "res_Body res = Inl e"
      | (malformed) e dbg b where "ret = Return (Some e)"
        "rest = CaptureHTTPResponse (name rnr) res # dbg"
        "list_all is_note dbg" "res_Body res = Inr b" "decodeBody E res b = Inl e"
      | (recorded) ns d where "ret = Return None"
        "rest = CaptureHTTPResponse (name rnr) res # ns @ [Record d]"
        "list_all is_note ns" "res_status d = StatusCode res"
      by blast
    then show ?thesis
    proof cases
      case invalid
      have "response_validation_failure rnr evs e"
        using invalid answered(1) by (auto simp: response_validation_failure_def)
      then show ?thesis
        using invalid answered(1) by (auto simp: accepted_def)
    next
      case unread
      have "transport_failure E rnr evs e"
        using unread answered(1) by (auto simp: transport_failure_def)
      then show ?thesis
        using unread answered(1) by (auto simp: list_all_iff)
    next
      case malformed
      have "transport_failure E rnr evs e"
        using malformed answered(1)
        by (auto simp: transport_failure_def decodeBody_def split: if_splits)
      then show ?thesis
        using malformed answered(1) by (auto simp: list_all_iff)
    next
      case recorded
      then show ?thesis
        using answered(1) by (auto simp: list_all_iff)
    qed
  qed
qed

theorem Run_outcome_or_error_witness:
  "Run small_env (handler_runner 500 ''text/plain'' ''failed'') (request_of ''GET'' [] ANil) no_files
     = (Return None,
        events_of 500 ''text/plain'' ''failed''
        @ [Record \<lparr>res_status = 500, res_body = ANil, res_rawBody = ''failed'',
                   res_headers = [(''Content-Type'', [''text/plain''])], res_cookies = []\<rparr>],
        no_files)
   \<and> BackendCall (plain_request ''GET'' ''/users'' None)
        \<in> set (events_of 500 ''text/plain'' ''failed'')
   \<and> CaptureHTTPResponse ''req'' (plain_response 500 ''text/plain'' ''failed'')
        \<in> set (events_of 500 ''text/plain'' ''failed'')
   \<and> res_Body (plain_response 500 ''text/plain'' ''failed'') = Inr ''failed''
   \<and> decodeBody small_env (plain_response 500 ''text/plain'' ''failed'') ''failed'' = Inr ANil
   \<and> (\<exists>d. Record d \<in> set (events_of 500 ''text/plain'' ''failed''
              @ [Record \<lparr>res_status = 500, res_body = ANil, res_rawBody = ''failed'',
                   res_headers = [(''Content-Type'', [''text/plain''])], res_cookies = []\<rparr>])
          \<and> res_status d = StatusCode (plain_response 500 ''text/plain'' ''failed''))
   \<and> Run small_env (handler_runner 200 ''application/json'' ''{'') (request_of ''GET'' [] ANil)
        no_files
     = (Return (Some (External ''invalid character'')),
        events_of 200 ''application/json'' ''{'', no_files)
   \<and> (\<forall>d. Record d \<notin> set (events_of 200 ''application/json'' ''{''))
   \<and> (transport_failure small_env (handler_runner 200 ''application/json'' ''{'')
          (events_of 200 ''application/json'' ''{'') (External ''invalid character'')
       \<or> request_construction_failure small_env (handler_runner 200 ''application/json'' ''{'')
          (request_of ''GET'' [] ANil) no_files (External ''invalid character'')
       \<or> request_validation_failure (handler_runner 200 ''application/json'' ''{'')
          (events_of 200 ''application/json'' ''{'') (External ''invalid character'')
       \<or> response_validation_failure (handler_runner 200 ''application/json'' ''{'')
          (events_of 200 ''application/json'' ''{'') (External ''invalid character''))"
proof -
  have mem: "BackendCall (plain_request ''GET'' ''/users'' None)
        \<in> set (events_of 500 ''text/plain'' ''failed''
                 @ [Record \<lparr>res_status = 500, res_body = ANil, res_rawBody = ''failed'',
                      res_headers = [(''Content-Type'', [''text/plain''])], res_cookies = []\<rparr>])
      \<and> CaptureHTTPResponse (name (handler_runner 500 ''text/plain'' ''failed''))
          (plain_response 500 ''text/plain'' ''failed'')
        \<in> set (events_of 500 ''text/plain'' ''failed''
                 @ [Record \<lparr>res_status = 500, res_body = ANil, res_rawBody = ''failed'',
                      res_headers = [(''Content-Type'', [''text/plain''])], res_cookies = []\<rparr>])
      \<and> accepted (handler_runner 500 ''text/plain'' ''failed'')
          (plain_request ''GET'' ''/users'' None) (plain_response 500 ''text/plain'' ''failed'')
      \<and> res_Body (plain_response 500 ''text/plain'' ''failed'') = Inr ''failed''
      \<and> decodeBody small_env (plain_response 500 ''text/plain'' ''failed'') ''failed'' = Inr ANil"
  proof (intro conjI)
    show "res_Body (plain_response 500 ''text/plain'' ''failed'') = Inr ''failed''"
      by (simp add: plain_response_def)
  qed (simp_all add: events_of_def name_handler_runner accepted_handler_runner decode_plain_body)
  have ok: "\<exists>d. Record d \<in> set (events_of 500 ''text/plain'' ''failed''
              @ [Record \<lparr>res_status = 500, res_body = ANil, res_rawBody = ''failed'',
                   res_headers = [(''Content-Type'', [''text/plain''])], res_cookies = []\<rparr>])
          \<and> res_status d = StatusCode (plain_response 500 ''text/plain'' ''failed'')"
    using Run_outcome_or_error [OF run_500] mem by blast
  have err: "(\<forall>d. Record d \<notin> set (events_of 200 ''application/json'' ''{''))
     \<and> (transport_failure small_env (handler_runner 200 ''application/json'' ''{'')
          (events_of 200 ''application/json'' ''{'') (External ''invalid character'')
       \<or> request_construction_failure small_env (handler_runner 200 ''application/json'' ''{'')
          (request_of ''GET'' [] ANil) no_files (External ''invalid character'')
       \<or> request_validation_failure (handler_runner 200 ''application/json'' ''{'')
          (events_of 200 ''application/json'' ''{'') (External ''invalid character'')
       \<or> response_validation_failure (handler_runner 200 ''application/json'' ''{'')
          (events_of 200 ''application/json'' ''{'') (External ''invalid character''))"
    using Run_outcome_or_error [OF run_malformed] by blast
  show ?thesis
    using ok err mem run_500 run_malformed by (simp add: events_of_def)
qed

text \<open>
  The Outcome of a run that obtained a response. When \<open>Run\<close> returns no error after
  a response was obtained, exactly one Outcome is recorded: its status and headers are those of the response, its raw body is the
  body read, and its decoded body is the JSON value parsed from the body when the
  Content-Type of the response contains \<open>json\<close> and the body is not empty, and \<open>nil\<close>
  otherwise. When such a body cannot be parsed, \<open>Run\<close> returns an error and records no
  Outcome.
\<close>

lemma Run_outcome_fields:
  assumes "Run E rnr r s = (ret, evs, s')"
    and "CaptureHTTPResponse (name rnr) res \<in> set evs"
  shows "(ret = Return None \<longrightarrow>
            (\<exists>d b. Record d \<in> set evs \<and> (\<forall>d'. Record d' \<in> set evs \<longrightarrow> d' = d)
               \<and> res_Body res = Inr b
               \<and> res_status d = StatusCode res \<and> res_headers d = res_Header res
               \<and> res_rawBody d = b
               \<and> (if Contains (Header_Get E (res_Header res) ''Content-Type'') ''json'' \<and> b \<noteq> []
                   then json_Unmarshal E b = Inr (res_body d)
                   else res_body d = ANil)))
       \<and> (\<forall>b e. res_Body res = Inr b
              \<and> Contains (Header_Get E (res_Header res) ''Content-Type'') ''json'' \<and> b \<noteq> []
              \<and> json_Unmarshal E b = Inl e
              \<longrightarrow> (\<exists>e'. ret = Return (Some e')) \<and> (\<forall>d. Record d \<notin> set evs))"
proof -
  from Run_answered [OF assms]
  obtain req res0 rest where
    evs: "evs = CaptureHTTPRequest (name rnr) req # BackendCall req # rest"
    and hr: "handleResponse E rnr req res0 = (ret, rest)"
    by blast
  have inrest: "CaptureHTTPResponse (name rnr) res \<in> set rest"
    using assms(2) evs by simp
  from handleResponse_cases [OF hr]
  consider (invalid) e where "ret = Return (Some e)" "rest = [CaptureHTTPResponse (name rnr) res0]"
      "ValidateResponse (validator rnr) req res0 = Some e"
    | (unread) e dbg where "ret = Return (Some e)" "rest = CaptureHTTPResponse (name rnr) res0 # dbg"
      "list_all is_note dbg" "res_Body res0 = Inl e"
    | (malformed) e dbg b where "ret = Return (Some e)"
      "rest = CaptureHTTPResponse (name rnr) res0 # dbg"
      "list_all is_note dbg" "res_Body res0 = Inr b" "decodeBody E res0 b = Inl e"
    | (recorded) ns b v d where "ret = Return None"
      "rest = CaptureHTTPResponse (name rnr) res0 # ns @ [Record d]"
      "list_all is_note ns" "res_Body res0 = Inr b" "decodeBody E res0 b = Inr v"
      "res_status d = StatusCode res0" "res_body d = v" "res_rawBody d = b"
      "res_headers d = res_Header res0"
    by blast
  then show ?thesis
  proof cases
    case invalid
    have "\<forall>d. Record d \<notin> set evs" using invalid(2) evs by simp
    then show ?thesis using invalid(1) by simp
  next
    case unread
    have "\<forall>d. Record d \<notin> set evs"
      using unread(2) evs note_not_capture(2) [OF unread(3)] by simp
    then show ?thesis using unread(1) by simp
  next
    case malformed
    have "\<forall>d. Record d \<notin> set evs"
      using malformed(2) evs note_not_capture(2) [OF malformed(3)] by simp
    then show ?thesis using malformed(1) by simp
  next
    case recorded
    have same: "res = res0"
      using inrest recorded(2) note_not_capture(1) [OF recorded(3)] by auto
    have only: "\<forall>d'. Record d' \<in> set evs \<longrightarrow> d' = d"
      using recorded(2) evs note_not_capture(2) [OF recorded(3)] by auto
    have isin: "Record d \<in> set evs" using recorded(2) evs by simp
    have dec: "if Contains (Header_Get E (res_Header res) ''Content-Type'') ''json'' \<and> b \<noteq> []
                   then json_Unmarshal E b = Inr (res_body d)
                   else res_body d = ANil"
    proof (cases "Contains (Header_Get E (res_Header res) ''Content-Type'') ''json'' \<and> b \<noteq> []")
      case True
      then have "decodeBody E res0 b = json_Unmarshal E b"
        using same by (simp add: decodeBody_def)
      then show ?thesis using True recorded(5,7) by simp
    next
      case False
      then have "decodeBody E res0 b = Inr ANil"
        using same by (auto simp: decodeBody_def)
      then have "res_body d = ANil" using recorded(5,7) by simp
      then show ?thesis using False by (simp only: if_False)
    qed
    have first: "\<exists>d b. Record d \<in> set evs \<and> (\<forall>d'. Record d' \<in> set evs \<longrightarrow> d' = d)
               \<and> res_Body res = Inr b
               \<and> res_status d = StatusCode res \<and> res_headers d = res_Header res
               \<and> res_rawBody d = b
               \<and> (if Contains (Header_Get E (res_Header res) ''Content-Type'') ''json'' \<and> b \<noteq> []
                   then json_Unmarshal E b = Inr (res_body d)
                   else res_body d = ANil)"
      using isin only dec recorded(4,6,8,9) same by blast
    have second: "\<forall>b' e. res_Body res = Inr b'
              \<and> Contains (Header_Get E (res_Header res) ''Content-Type'') ''json'' \<and> b' \<noteq> []
              \<and> json_Unmarshal E b' = Inl e \<longrightarrow> False"
    proof (intro allI impI)
      fix b' e
      assume h: "res_Body res = Inr b'
              \<and> Contains (Header_Get E (res_Header res) ''Content-Type'') ''json'' \<and> b' \<noteq> []
              \<and> json_Unmarshal E b' = Inl e"
      then have "b' = b" using recorded(4) same by simp
      then have "decodeBody E res0 b = Inl e"
        using h same by (simp add: decodeBody_def)
      then show False using recorded(5) by simp
    qed
    show ?thesis
      using first second by blast
  qed
qed

lemma Run_outcome_fields_at_json:
  "Run small_env (handler_runner 200 ''application/json'' ''{}'') (request_of ''GET'' [] ANil) no_files
     = (Return None,
        events_of 200 ''application/json'' ''{}''
        @ [Record \<lparr>res_status = 200, res_body = AMap [], res_rawBody = ''{}'',
                   res_headers = [(''Content-Type'', [''application/json''])], res_cookies = []\<rparr>],
        no_files)
   \<and> (\<exists>d b. Record d \<in> set (events_of 200 ''application/json'' ''{}''
          @ [Record \<lparr>res_status = 200, res_body = AMap [], res_rawBody = ''{}'',
                   res_headers = [(''Content-Type'', [''application/json''])], res_cookies = []\<rparr>])
        \<and> res_Body (plain_response 200 ''application/json'' ''{}'') = Inr b
        \<and> res_status d = 200 \<and> res_rawBody d = b \<and> json_Unmarshal small_env b = Inr (res_body d))
   \<and> Run small_env (handler_runner 200 ''application/json'' ''{'') (request_of ''GET'' [] ANil)
        no_files
     = (Return (Some (External ''invalid character'')),
        events_of 200 ''application/json'' ''{'', no_files)
   \<and> json_Unmarshal small_env ''{'' = Inl (External ''invalid character'')
   \<and> (\<forall>d. Record d \<notin> set (events_of 200 ''application/json'' ''{''))"
proof -
  have mem: "CaptureHTTPResponse (name (handler_runner 200 ''application/json'' ''{}''))
          (plain_response 200 ''application/json'' ''{}'')
        \<in> set (events_of 200 ''application/json'' ''{}''
          @ [Record \<lparr>res_status = 200, res_body = AMap [], res_rawBody = ''{}'',
                   res_headers = [(''Content-Type'', [''application/json''])], res_cookies = []\<rparr>])"
    by (simp add: events_of_def name_handler_runner)
  have json: "Contains (Header_Get small_env (res_Header (plain_response 200 ''application/json'' ''{}''))
      ''Content-Type'') ''json''"
    by code_simp
  have body: "res_Body (plain_response 200 ''application/json'' ''{}'') = Inr ''{}''"
    by (simp add: plain_response_def)
  have st: "StatusCode (plain_response 200 ''application/json'' ''{}'') = 200"
    by (simp add: plain_response_def)
  have ok: "\<exists>d b. Record d \<in> set (events_of 200 ''application/json'' ''{}''
          @ [Record \<lparr>res_status = 200, res_body = AMap [], res_rawBody = ''{}'',
                   res_headers = [(''Content-Type'', [''application/json''])], res_cookies = []\<rparr>])
        \<and> res_Body (plain_response 200 ''application/json'' ''{}'') = Inr b
        \<and> res_status d = 200 \<and> res_rawBody d = b \<and> json_Unmarshal small_env b = Inr (res_body d)"
  proof -
    from Run_outcome_fields [OF run_json mem]
    obtain d b where d: "Record d \<in> set (events_of 200 ''application/json'' ''{}''
          @ [Record \<lparr>res_status = 200, res_body = AMap [], res_rawBody = ''{}'',
                   res_headers = [(''Content-Type'', [''application/json''])], res_cookies = []\<rparr>])"
      "res_Body (plain_response 200 ''application/json'' ''{}'') = Inr b"
      "res_status d = StatusCode (plain_response 200 ''application/json'' ''{}'')"
      "res_rawBody d = b"
      "if Contains (Header_Get small_env (res_Header (plain_response 200 ''application/json'' ''{}''))
            ''Content-Type'') ''json'' \<and> b \<noteq> []
       then json_Unmarshal small_env b = Inr (res_body d) else res_body d = ANil"
      by blast
    have "b = ''{}''" using d(2) body by simp
    then have "json_Unmarshal small_env b = Inr (res_body d)"
      using d(5) json by simp
    then show ?thesis using d st by auto
  qed
  have mem2: "CaptureHTTPResponse (name (handler_runner 200 ''application/json'' ''{''))
          (plain_response 200 ''application/json'' ''{'')
        \<in> set (events_of 200 ''application/json'' ''{'')"
    by (simp add: events_of_def name_handler_runner)
  have body2: "res_Body (plain_response 200 ''application/json'' ''{'') = Inr ''{''"
    by (simp add: plain_response_def)
  have err: "\<forall>d. Record d \<notin> set (events_of 200 ''application/json'' ''{'')"
    using Run_outcome_fields [OF run_malformed mem2] malformed_json body2 by blast
  show ?thesis
    using ok err run_json run_malformed malformed_json by simp
qed

lemma configureTLS_nil:
  assumes "configureTLS E rnr cl w = Some None"
  shows "cacert rnr \<noteq> [] \<and> \<not> AppendCertsFromPEM E (cacert rnr) \<and> x509_SystemCertPool E w = None"
  using assms
  by (auto simp: configureTLS_def configureCerts_def Let_def split: if_splits option.splits)

lemma validateAndSend_not_nil:
  "(validateAndSend rnr req send s = (Inl (Return None), evs, s')) = False"
  by (auto simp: validateAndSend_def validateThenSend_def split: option.splits prod.splits sum.splits)

lemma handleResponse_nonempty:
  assumes "handleResponse E rnr req res = (ret, evs)"
  shows "evs \<noteq> []"
  using handleResponse_cases [OF assms] by auto

lemma sendRequest_nil:
  assumes "sendRequest E rnr r reqBody s = (Inl (Return None), evs, s')"
  shows "evs = [] \<and> (\<exists>cl. client rnr = Some cl \<and> configureTLS E rnr cl (world s) = Some None)"
proof (cases "client rnr")
  case None
  then show ?thesis
    using assms
    by (auto simp: sendRequest_def sendViaHandler_def handlerRequest_def Let_def validateAndSend_not_nil
        split: option.splits)
next
  case (Some cl)
  then have out: "sendViaClient E rnr cl r reqBody s = (Inl (Return None), evs, s')"
    using assms by (simp add: sendRequest_def)
  show ?thesis
  proof (cases "configureTLS E rnr cl (world s)")
    case tls: (Some ret)
    then show ?thesis using out Some by (auto simp: sendViaClient_def clientRequest_def)
  next
    case None
    then have False
      using out
      by (auto simp: sendViaClient_def clientRequest_def Let_def validateAndSend_not_nil
          split: result.splits sum.splits option.splits)
    then show ?thesis ..
  qed
qed

text \<open>
  A return of \<open>nil\<close> without an Outcome. \<open>Run\<close> returns no error and records no
  Outcome in one case only, before any request is built: the runner has a client, the
  certificates of \<open>cacert\<close> cannot be appended, and \<open>x509.SystemCertPool\<close> gave no error,
  so that the error value returned at that place is \<open>nil\<close>. No event is logged then.
\<close>

lemma Run_nil_without_outcome:
  assumes "Run E rnr r s = (Return None, evs, s')"
  shows "(\<exists>d. Record d \<in> set evs)
    \<or> (evs = [] \<and> (\<exists>cl w. client rnr = Some cl \<and> cacert rnr \<noteq> []
          \<and> \<not> AppendCertsFromPEM E (cacert rnr) \<and> x509_SystemCertPool E w = None))"
proof -
  from Run_cases [OF assms]
  consider (pre) "evs = []"
    | (answered) req res rest where
      "evs = CaptureHTTPRequest (name rnr) req # BackendCall req # rest"
      "handleResponse E rnr req res = (Return None, rest)"
    by auto
  then show ?thesis
  proof cases
    case answered
    from handleResponse_cases [OF answered(2)]
    obtain ns d where "rest = CaptureHTTPResponse (name rnr) res # ns @ [Record d]"
      by auto
    then show ?thesis using answered(1) by auto
  next
    case pre
    define r1 where "r1 = r\<lparr>multipartBoundary := rnr_multipartBoundary rnr,
                             root := op_root (operator rnr)\<rparr>"
    obtain x r2 s1 where enc: "encodeBody E r1 s = (x, r2, s1)"
      by (cases "encodeBody E r1 s") auto
    obtain y evs1 s2 where snd: "sendRequest E rnr r2 (projr x) s1 = (y, evs1, s2)"
      by (cases "sendRequest E rnr r2 (projr x) s1") auto
    have "y = Inl (Return None)"
      using assms enc snd pre
      by (cases x; cases y)
         (auto simp: Run_def r1_def [symmetric] Let_def split: prod.splits
            dest: handleResponse_nonempty)
    then obtain cl where cl: "client rnr = Some cl"
      and tls: "configureTLS E rnr cl (world s1) = Some None"
      using sendRequest_nil snd by blast
    have "client rnr = Some cl \<and> cacert rnr \<noteq> []
          \<and> \<not> AppendCertsFromPEM E (cacert rnr) \<and> x509_SystemCertPool E (world s1) = None"
      using cl configureTLS_nil [OF tls] by simp
    then show ?thesis
      using pre by blast
  qed
qed

text \<open>
  C5, at the failing input. The runner has a client and CA certificates of which none
  can be appended, and the system pool is loaded without error: line 673 returns the
  error of \<open>x509.SystemCertPool\<close>, which is \<open>nil\<close>. The invocation returns no error,
  although no request was sent and no Outcome is recorded: the log is empty.
\<close>

theorem Run_nil_without_request:
  "cacert cacert_runner = ''no certificate''
   \<and> AppendCertsFromPEM small_env (cacert cacert_runner) = False
   \<and> x509_SystemCertPool small_env (world no_files) = None
   \<and> Run small_env cacert_runner (request_of ''GET'' [] ANil) no_files
       = (Return None, [], no_files)"
  by code_simp






















lemma built_client:
  "builtRequest offline_env client_runner (request_of ''GET'' [] ANil) no_files
     = Some (client_request, no_files)"
  by code_simp












section \<open>Properties of the Loop Controller\<close>

lemma iterate_without_until:
  assumes "loop_until spec = None"
  shows "(invocations_return L spec k i r \<longrightarrow>
            final (iterate L spec k i n cur r) = Satisfied
            \<and> invocations (iterate L spec k i n cur r) = n + k)
       \<and> (\<not> invocations_return L spec k i r \<longrightarrow>
            final (iterate L spec k i n cur r) = Failed
            \<and> n \<le> invocations (iterate L spec k i n cur r)
            \<and> invocations (iterate L spec k i n cur r) \<le> n + k)"
proof (induction k arbitrary: i n cur r)
  case 0
  then show ?case using assms by simp
next
  case (Suc k)
  obtain de r1 where d: "(if i > 0 then delay L (loop_interval spec) r else (None, r)) = (de, r1)"
    by (cases "(if i > 0 then delay L (loop_interval spec) r else (None, r))")
  obtain x r2 where inv: "invoke L r1 = (x, r2)"
    by (cases "invoke L r1")
  show ?case
  proof (cases de)
    case (Some err)
    then show ?thesis
      by (simp add: d del: iterate.simps(2) invocations_return.simps(2)
          add: iterate.simps(2) [of L spec k i n cur r]
            invocations_return.simps(2) [of L spec k i r])
  next
    case None
    show ?thesis
    proof (cases x)
      case (Inl err)
      then show ?thesis using None
        by (simp add: d inv del: iterate.simps(2) invocations_return.simps(2)
            add: iterate.simps(2) [of L spec k i n cur r]
            invocations_return.simps(2) [of L spec k i r])
    next
      case (Inr out)
      then show ?thesis
        using None Suc.IH [of "Suc i" r2 "Suc n" "Some out"] assms
        by (auto simp add: d inv simp del: iterate.simps(2) invocations_return.simps(2)
            simp add: iterate.simps(2) [of L spec k i n cur r]
            invocations_return.simps(2) [of L spec k i r])
    qed
  qed
qed

lemma three_times_no_until: "loop_until three_times = None"
  by (simp add: three_times_def)

text \<open>
  C6, as stated, fails: the loop does not make its N invocations regardless of what they
  give. With a count of 3 and no until expression, when the second invocation returns an
  error the loop ends as \<open>Failed\<close> after 2 invocations.
\<close>

theorem loop_fails_on_invocation_error:
  "loop_until three_times = None \<and> loop_count three_times = 3
   \<and> final (runLoop failing_stub three_times 0) = Failed
   \<and> invocations (runLoop failing_stub three_times 0) = 2"
  by code_simp

text \<open>
  C6, amended. A loop without an until expression and with count N makes exactly N
  invocations and ends as \<open>Satisfied\<close> when the invocations that it makes each return an
  Outcome, whatever the Outcome is, and no delay that it waits is cancelled. When one of
  them fails, the loop ends as \<open>Failed\<close>, after at most N invocations.
\<close>

theorem loop_without_until:
  assumes "loop_until spec = None"
  shows "(invocations_return L spec (loop_count spec) 0 r \<longrightarrow>
            final (runLoop L spec r) = Satisfied
            \<and> invocations (runLoop L spec r) = loop_count spec)
       \<and> (\<not> invocations_return L spec (loop_count spec) 0 r \<longrightarrow>
            final (runLoop L spec r) = Failed
            \<and> invocations (runLoop L spec r) \<le> loop_count spec)"
  using iterate_without_until [OF assms, of L "loop_count spec" 0 r 0 None]
  by (simp add: runLoop_def)

theorem loop_without_until_witness:
  "loop_until three_times = None \<and> loop_count three_times = 3
   \<and> invocations_return counting_stub three_times 3 0 0
   \<and> final (runLoop counting_stub three_times 0) = Satisfied
   \<and> invocations (runLoop counting_stub three_times 0) = 3
   \<and> current (runLoop counting_stub three_times 0) = Some 2
   \<and> invocations_return late_failing_stub three_times 3 0 0
   \<and> final (runLoop late_failing_stub three_times 0) = Satisfied
   \<and> invocations (runLoop late_failing_stub three_times 0) = 3
   \<and> \<not> invocations_return failing_stub three_times 3 0 0
   \<and> final (runLoop failing_stub three_times 0) = Failed
   \<and> invocations (runLoop failing_stub three_times 0) \<le> 3"
proof -
  have c: "loop_count three_times = 3" by (simp add: three_times_def)
  have a: "invocations_return counting_stub three_times 3 0 0" by code_simp
  have b: "invocations_return late_failing_stub three_times 3 0 0" by code_simp
  have f: "\<not> invocations_return failing_stub three_times 3 0 0" by code_simp
  have cur: "current (runLoop counting_stub three_times 0) = Some 2" by code_simp
  show ?thesis
    using loop_without_until [OF three_times_no_until, of counting_stub 0]
      loop_without_until [OF three_times_no_until, of late_failing_stub 0]
      loop_without_until [OF three_times_no_until, of failing_stub 0]
      a b f c cur three_times_no_until
    by simp
qed


end
